theory Spec2Isabelle
  imports Main "HOL-Library.Multiset"
begin

section \<open>Data model of \<^verbatim>\<open>main.py\<close>\<close>

text \<open>
  A Python \<^verbatim>\<open>datetime\<close> is naive (no \<^verbatim>\<open>tzinfo\<close>) or aware. \<open>Naive t\<close> is the wall-clock
  reading \<open>t\<close>, in microseconds from a fixed origin; \<open>Aware t offset\<close> is the wall-clock
  reading \<open>t\<close> in a zone whose \<^verbatim>\<open>utcoffset()\<close> is \<open>offset\<close> microseconds. Pydantic parses a
  timestamp with a zone designator (\<^verbatim>\<open>Z\<close>, \<^verbatim>\<open>+02:00\<close>) to an aware value and one without to
  a naive value. Python never finds a naive and an aware \<^verbatim>\<open>datetime\<close> equal.
\<close>

datatype datetime = Naive int | Aware int int

text \<open>
  The pydantic models of the source. The code never computes with a \<^verbatim>\<open>float\<close>: it only
  moves it between the request, the table and the response, and a \<^verbatim>\<open>Float\<close> column keeps it
  as it is. \<^verbatim>\<open>float\<close> is therefore the type parameter \<open>'f\<close>.
  The fields \<^verbatim>\<open>x\<close>, \<^verbatim>\<open>y\<close>, \<^verbatim>\<open>z\<close>, \<^verbatim>\<open>latitude\<close>, \<^verbatim>\<open>longitude\<close> carry the prefix
  \<open>acc_\<close> or \<open>gps_\<close>, and the columns of a table row the prefix \<open>row_\<close>, since a record
  field is a constant of the theory.
\<close>

record 'f AccelerometerData =
  acc_x :: 'f
  acc_y :: 'f
  acc_z :: 'f

record 'f GpsData =
  gps_latitude :: 'f
  gps_longitude :: 'f

record 'f AgentData =
  accelerometer :: "'f AccelerometerData"
  gps :: "'f GpsData"
  timestamp :: datetime

record 'f ProcessedAgentDataRequest =
  road_state :: string
  agent_data :: "'f AgentData"

text \<open>
  One row of the table \<^verbatim>\<open>processed_agent_data\<close>, which is also the shape of the response
  model \<^verbatim>\<open>ProcessedAgentDataInDB\<close>.
\<close>

record 'f ProcessedAgentDataInDB =
  row_id :: int
  row_road_state :: string
  row_x :: 'f
  row_y :: 'f
  row_z :: 'f
  row_latitude :: 'f
  row_longitude :: 'f
  row_timestamp :: datetime

text \<open>
  The seven keyword arguments of \<^verbatim>\<open>.values(...)\<close> in an insert or update statement: every
  column but \<^verbatim>\<open>id\<close>.
\<close>

record 'f ColumnValues =
  val_road_state :: string
  val_x :: 'f
  val_y :: 'f
  val_z :: 'f
  val_latitude :: 'f
  val_longitude :: 'f
  val_timestamp :: datetime

definition with_id :: "int \<Rightarrow> 'f ColumnValues \<Rightarrow> 'f ProcessedAgentDataInDB" where
  "with_id i v =
     \<lparr>row_id = i, row_road_state = val_road_state v, row_x = val_x v, row_y = val_y v,
      row_z = val_z v, row_latitude = val_latitude v, row_longitude = val_longitude v,
      row_timestamp = val_timestamp v\<rparr>"

section \<open>Exceptions\<close>

text \<open>
  The exceptions that can be raised inside the \<^verbatim>\<open>try\<close> blocks of the CRUD endpoints:
  \<^item> \<open>HTTPException status_code detail\<close>, raised by the endpoints themselves;
  \<^item> \<open>SQLAlchemyError msg\<close>, raised by \<^verbatim>\<open>db.execute\<close> or \<^verbatim>\<open>db.commit\<close>; \<open>msg\<close> is what
    \<^verbatim>\<open>str(e)\<close> gives for it (the driver's message, the statement, its parameters);
  \<^item> \<open>AttributeError msg\<close>, raised by reading a column of \<^verbatim>\<open>None\<close>.
  An endpoint returns \<open>exn + 'a\<close>: \<open>Inl\<close> is the exception that leaves the function.
\<close>

datatype exn =
    HTTPException int string
  | SQLAlchemyError string
  | AttributeError string

text \<open>A name between single quotes, as Python's messages print it.\<close>

definition quoted :: "string \<Rightarrow> string" where
  "quoted name = CHR 0x27 # name @ [CHR 0x27]"

text \<open>Python's \<^verbatim>\<open>str\<close> of an \<^verbatim>\<open>int\<close>: decimal digits, with a sign when negative.\<close>

function str_nat :: "nat \<Rightarrow> string" where
  "str_nat n =
     (if n < 10 then [''0123456789'' ! n]
      else str_nat (n div 10) @ [''0123456789'' ! (n mod 10)])"
  by pat_completeness auto
termination
  by (relation "measure (\<lambda>n. n)") auto

declare str_nat.simps [simp del]

definition str_int :: "int \<Rightarrow> string" where
  "str_int i = (if i < 0 then ''-'' @ str_nat (nat (- i)) else str_nat (nat i))"

text \<open>
  \<^verbatim>\<open>str(e)\<close>. For an \<^verbatim>\<open>HTTPException\<close> it is Starlette's \<^verbatim>\<open>__str__\<close>,
  \<^verbatim>\<open>f"{self.status_code}: {self.detail}"\<close>; the other exceptions print their message.
\<close>

fun str_exn :: "exn \<Rightarrow> string" where
  "str_exn (HTTPException status_code detail) = str_int status_code @ '': '' @ detail"
| "str_exn (SQLAlchemyError msg) = msg"
| "str_exn (AttributeError msg) = msg"

section \<open>The storage engine\<close>

text \<open>
  The database behind the SQLAlchemy session is not part of the repository. It is modelled
  by what the endpoints use of it:
  \<^item> \<open>committed\<close>: the rows of the table that are durable and visible to every session, in
    the engine's order;
  \<^item> \<open>pending\<close>: the rows as the open transaction of this session sees them;
  \<^item> \<open>seq\<close>: the sequence behind the primary key \<^verbatim>\<open>id\<close>; it is not transactional;
  \<^item> \<open>timezone\<close>: the offset from UTC, in microseconds, of the \<^verbatim>\<open>TimeZone\<close> setting of
    the database session (0 when it is UTC);
  \<^item> \<open>faults\<close>: what the next calls of \<^verbatim>\<open>db.execute\<close> and \<^verbatim>\<open>db.commit\<close> will do, one entry
    per call: \<open>Some msg\<close> makes the call raise \<open>SQLAlchemyError msg\<close>, \<open>None\<close> lets it
    succeed; past the end of the list every call succeeds. A theorem that holds for every
    \<open>faults\<close> holds whichever calls fail.
  The order of the rows of a table is the engine's: an insert adds its row after the
  others, and an update writes the new version of a row after the rows it leaves alone.
  No property below depends on where an updated row stands.
\<close>

record 'f Session =
  committed :: "'f ProcessedAgentDataInDB list"
  pending :: "'f ProcessedAgentDataInDB list"
  seq :: int
  timezone :: int
  faults :: "string option list"

text \<open>
  What a column of the table keeps of a value. \<^verbatim>\<open>Column("timestamp", DateTime)\<close> is a
  timestamp without time zone: a naive \<^verbatim>\<open>datetime\<close> is kept as it is; an aware one is sent
  by the driver with its offset, converted to the wall-clock reading of the same instant in
  the session's time zone, and kept without the zone. A row read back holds a naive
  \<^verbatim>\<open>datetime\<close>. The \<^verbatim>\<open>String\<close> and \<^verbatim>\<open>Float\<close> columns keep their values.
\<close>

definition to_timestamp :: "int \<Rightarrow> datetime \<Rightarrow> datetime" where
  "to_timestamp tz d = (case d of Naive t \<Rightarrow> Naive t | Aware t offset \<Rightarrow> Naive (t - offset + tz))"

definition kept :: "int \<Rightarrow> 'f ColumnValues \<Rightarrow> 'f ColumnValues" where
  "kept tz v = v\<lparr>val_timestamp := to_timestamp tz (val_timestamp v)\<rparr>"

definition next_fault :: "'f Session \<Rightarrow> string option \<times> 'f Session" where
  "next_fault db =
     (case faults db of
        [] \<Rightarrow> (None, db)
      | f # fs \<Rightarrow> (f, db\<lparr>faults := fs\<rparr>))"

text \<open>
  \<^verbatim>\<open>db.execute(processed_agent_data.insert().values(...))\<close>: the row gets the next value of
  the sequence as its \<^verbatim>\<open>id\<close>, and the seven values as the columns keep them; the primary
  key refuses an \<^verbatim>\<open>id\<close> that is already in the table.
\<close>

definition execute_insert ::
  "'f ColumnValues \<Rightarrow> 'f Session \<Rightarrow> (exn + unit) \<times> 'f Session" where
  "execute_insert v db =
     (case next_fault db of
        (Some msg, db1) \<Rightarrow> (Inl (SQLAlchemyError msg), db1)
      | (None, db1) \<Rightarrow>
          (if seq db1 \<in> set (map row_id (pending db1))
           then (Inl (SQLAlchemyError ''duplicate key value violates unique constraint''),
                 db1\<lparr>seq := seq db1 + 1\<rparr>)
           else (Inr (),
                 db1\<lparr>pending := pending db1 @ [with_id (seq db1) (kept (timezone db1) v)],
                     seq := seq db1 + 1\<rparr>)))"

text \<open>
  \<^verbatim>\<open>db.execute(select(processed_agent_data).where(c.id == i)).fetchone()\<close>: the first
  matching row, or \<^verbatim>\<open>None\<close>.
\<close>

definition execute_select_fetchone ::
  "int \<Rightarrow> 'f Session \<Rightarrow>
     (exn + 'f ProcessedAgentDataInDB option) \<times> 'f Session" where
  "execute_select_fetchone i db =
     (case next_fault db of
        (Some msg, db1) \<Rightarrow> (Inl (SQLAlchemyError msg), db1)
      | (None, db1) \<Rightarrow> (Inr (find (\<lambda>r. row_id r = i) (pending db1)), db1))"

text \<open>\<^verbatim>\<open>db.execute(select(processed_agent_data)).fetchall()\<close>.\<close>

definition execute_select_fetchall ::
  "'f Session \<Rightarrow> (exn + 'f ProcessedAgentDataInDB list) \<times> 'f Session" where
  "execute_select_fetchall db =
     (case next_fault db of
        (Some msg, db1) \<Rightarrow> (Inl (SQLAlchemyError msg), db1)
      | (None, db1) \<Rightarrow> (Inr (pending db1), db1))"

text \<open>
  \<^verbatim>\<open>db.execute(update().where(c.id == i).values(...).returning(table)).fetchone()\<close>: every
  matching row gets the seven values, as the columns keep them, and keeps its \<^verbatim>\<open>id\<close>; the
  statement returns the rows it has written, and \<^verbatim>\<open>fetchone\<close> the first of them, or
  \<^verbatim>\<open>None\<close>.
\<close>

definition execute_update_returning ::
  "int \<Rightarrow> 'f ColumnValues \<Rightarrow> 'f Session \<Rightarrow>
     (exn + 'f ProcessedAgentDataInDB option) \<times> 'f Session" where
  "execute_update_returning i v db =
     (case next_fault db of
        (Some msg, db1) \<Rightarrow> (Inl (SQLAlchemyError msg), db1)
      | (None, db1) \<Rightarrow>
          (let written =
                 map (\<lambda>r. with_id (row_id r) (kept (timezone db1) v))
                   (filter (\<lambda>r. row_id r = i) (pending db1))
           in (Inr (case written of [] \<Rightarrow> None | r # rs \<Rightarrow> Some r),
               db1\<lparr>pending := filter (\<lambda>r. row_id r \<noteq> i) (pending db1) @ written\<rparr>)))"

text \<open>\<^verbatim>\<open>db.execute(processed_agent_data.delete().where(c.id == i))\<close>.\<close>

definition execute_delete :: "int \<Rightarrow> 'f Session \<Rightarrow> (exn + unit) \<times> 'f Session" where
  "execute_delete i db =
     (case next_fault db of
        (Some msg, db1) \<Rightarrow> (Inl (SQLAlchemyError msg), db1)
      | (None, db1) \<Rightarrow> (Inr (), db1\<lparr>pending := filter (\<lambda>r. row_id r \<noteq> i) (pending db1)\<rparr>))"

text \<open>\<^verbatim>\<open>db.commit()\<close>: the transaction's rows become the durable ones, or the call raises.\<close>

definition commit :: "'f Session \<Rightarrow> (exn + unit) \<times> 'f Session" where
  "commit db =
     (case next_fault db of
        (Some msg, db1) \<Rightarrow> (Inl (SQLAlchemyError msg), db1)
      | (None, db1) \<Rightarrow> (Inr (), db1\<lparr>committed := pending db1\<rparr>))"

text \<open>
  \<^verbatim>\<open>create_db_session\<close>, the dependency of every endpoint: \<^verbatim>\<open>SessionLocal()\<close> opens a
  session, whose transaction starts from the committed rows; the endpoint runs; the
  \<^verbatim>\<open>finally\<close> clause closes the session, which rolls back what was not committed.
\<close>

definition create_db_session ::
  "('f Session \<Rightarrow> 'a \<times> 'f Session) \<Rightarrow> 'f Session \<Rightarrow> 'a \<times> 'f Session" where
  "create_db_session endpoint db =
     (case endpoint (db\<lparr>pending := committed db\<rparr>) of
        (res, db1) \<Rightarrow> (res, db1\<lparr>pending := committed db1\<rparr>))"

section \<open>The CRUD endpoints\<close>

text \<open>
  Each endpoint takes the open session and returns its result with the session as it
  leaves it. The \<^verbatim>\<open>try\<close> block of an endpoint is a definition of its own, named
  \<open>_try\<close>; the \<^verbatim>\<open>except Exception as e\<close> clause is applied to its outcome. The request
  bodies arrive validated by pydantic, hence typed; a row of the table has a value in
  every column, so building the response model from it does not fail.
\<close>

subsection \<open>\<^verbatim>\<open>POST /processed_agent_data/\<close>\<close>

text \<open>The \<^verbatim>\<open>for element in data\<close> loop: one insert per element, left at the first exception.\<close>

fun insert_elements ::
  "'f ProcessedAgentDataRequest list \<Rightarrow> 'f Session \<Rightarrow>
     (exn + unit) \<times> 'f Session" where
  "insert_elements [] db = (Inr (), db)"
| "insert_elements (element # rest) db =
     (case execute_insert
             \<lparr>val_road_state = road_state element,
              val_x = acc_x (accelerometer (agent_data element)),
              val_y = acc_y (accelerometer (agent_data element)),
              val_z = acc_z (accelerometer (agent_data element)),
              val_latitude = gps_latitude (gps (agent_data element)),
              val_longitude = gps_longitude (gps (agent_data element)),
              val_timestamp = timestamp (agent_data element)\<rparr> db of
        (Inl e, db1) \<Rightarrow> (Inl e, db1)
      | (Inr u, db1) \<Rightarrow> insert_elements rest db1)"

definition create_processed_agent_data_try ::
  "'f ProcessedAgentDataRequest list \<Rightarrow> 'f Session \<Rightarrow>
     (exn + string) \<times> 'f Session" where
  "create_processed_agent_data_try data db =
     (case insert_elements data db of
        (Inl e, db1) \<Rightarrow> (Inl e, db1)
      | (Inr u, db1) \<Rightarrow>
          (case commit db1 of
             (Inl e, db2) \<Rightarrow> (Inl e, db2)
           | (Inr u, db2) \<Rightarrow> (Inr ''data added successfully'', db2)))"

text \<open>\<^verbatim>\<open>except Exception as e: raise HTTPException(status_code=500, detail="data create failed")\<close>\<close>

definition create_processed_agent_data ::
  "'f ProcessedAgentDataRequest list \<Rightarrow> 'f Session \<Rightarrow>
     (exn + string) \<times> 'f Session" where
  "create_processed_agent_data data db =
     (case create_processed_agent_data_try data db of
        (Inl e, db1) \<Rightarrow> (Inl (HTTPException 500 ''data create failed''), db1)
      | (Inr res, db1) \<Rightarrow> (Inr res, db1))"

subsection \<open>The \<^verbatim>\<open>except\<close> clause of the other endpoints\<close>

text \<open>
  \<^verbatim>\<open>except Exception as e: raise HTTPException(status_code=500, detail=f"Error: {str(e)}")\<close>.
  \<^verbatim>\<open>HTTPException\<close> is a subclass of \<^verbatim>\<open>Exception\<close>, so the clause also catches the
  \<^verbatim>\<open>HTTPException\<close> that the \<^verbatim>\<open>try\<close> block raises itself.
\<close>

definition except_Exception :: "(exn + 'a) \<times> 's \<Rightarrow> (exn + 'a) \<times> 's" where
  "except_Exception outcome =
     (case outcome of
        (Inl e, s) \<Rightarrow> (Inl (HTTPException 500 (''Error: '' @ str_exn e)), s)
      | (Inr res, s) \<Rightarrow> (Inr res, s))"

subsection \<open>\<^verbatim>\<open>GET /processed_agent_data/{processed_agent_data_id}\<close>\<close>

definition read_processed_agent_data_try ::
  "int \<Rightarrow> 'f Session \<Rightarrow>
     (exn + 'f ProcessedAgentDataInDB) \<times> 'f Session" where
  "read_processed_agent_data_try processed_agent_data_id db =
     (case execute_select_fetchone processed_agent_data_id db of
        (Inl e, db1) \<Rightarrow> (Inl e, db1)
      | (Inr None, db1) \<Rightarrow> (Inl (HTTPException 404 ''data not exist''), db1)
      | (Inr (Some data), db1) \<Rightarrow>
          (Inr \<lparr>row_id = row_id data, row_road_state = row_road_state data,
                row_x = row_x data, row_y = row_y data, row_z = row_z data,
                row_latitude = row_latitude data, row_longitude = row_longitude data,
                row_timestamp = row_timestamp data\<rparr>, db1))"

definition read_processed_agent_data ::
  "int \<Rightarrow> 'f Session \<Rightarrow>
     (exn + 'f ProcessedAgentDataInDB) \<times> 'f Session" where
  "read_processed_agent_data processed_agent_data_id db =
     except_Exception (read_processed_agent_data_try processed_agent_data_id db)"

subsection \<open>\<^verbatim>\<open>GET /processed_agent_data/\<close>\<close>

definition list_processed_agent_data_try ::
  "'f Session \<Rightarrow> (exn + 'f ProcessedAgentDataInDB list) \<times> 'f Session" where
  "list_processed_agent_data_try db =
     (case execute_select_fetchall db of
        (Inl e, db1) \<Rightarrow> (Inl e, db1)
      | (Inr getList, db1) \<Rightarrow>
          (Inr (map (\<lambda>element.
                  \<lparr>row_id = row_id element, row_road_state = row_road_state element,
                   row_x = row_x element, row_y = row_y element, row_z = row_z element,
                   row_latitude = row_latitude element,
                   row_longitude = row_longitude element,
                   row_timestamp = row_timestamp element\<rparr>) getList), db1))"

definition list_processed_agent_data ::
  "'f Session \<Rightarrow> (exn + 'f ProcessedAgentDataInDB list) \<times> 'f Session" where
  "list_processed_agent_data db = except_Exception (list_processed_agent_data_try db)"

subsection \<open>\<^verbatim>\<open>PUT /processed_agent_data/{processed_agent_data_id}\<close>\<close>

text \<open>
  The row that the update statement returns is read after the commit: when the statement
  has written no row, \<^verbatim>\<open>updated_data\<close> is \<^verbatim>\<open>None\<close> and \<^verbatim>\<open>updated_data.id\<close> raises.
\<close>

definition update_processed_agent_data_try ::
  "int \<Rightarrow> 'f ProcessedAgentDataRequest \<Rightarrow> 'f Session \<Rightarrow>
     (exn + 'f ProcessedAgentDataInDB) \<times> 'f Session" where
  "update_processed_agent_data_try processed_agent_data_id data db =
     (case execute_select_fetchone processed_agent_data_id db of
        (Inl e, db1) \<Rightarrow> (Inl e, db1)
      | (Inr None, db1) \<Rightarrow> (Inl (HTTPException 404 ''data not exist''), db1)
      | (Inr (Some existing_data), db1) \<Rightarrow>
          (case execute_update_returning processed_agent_data_id
                  \<lparr>val_road_state = road_state data,
                   val_x = acc_x (accelerometer (agent_data data)),
                   val_y = acc_y (accelerometer (agent_data data)),
                   val_z = acc_z (accelerometer (agent_data data)),
                   val_latitude = gps_latitude (gps (agent_data data)),
                   val_longitude = gps_longitude (gps (agent_data data)),
                   val_timestamp = timestamp (agent_data data)\<rparr> db1 of
             (Inl e, db2) \<Rightarrow> (Inl e, db2)
           | (Inr updated_data, db2) \<Rightarrow>
               (case commit db2 of
                  (Inl e, db3) \<Rightarrow> (Inl e, db3)
                | (Inr u, db3) \<Rightarrow>
                    (case updated_data of
                       None \<Rightarrow>
                         (Inl (AttributeError
                                 (quoted ''NoneType'' @ '' object has no attribute '' @
                                  quoted ''id'')), db3)
                     | Some upd \<Rightarrow>
                         (Inr \<lparr>row_id = row_id upd, row_road_state = row_road_state upd,
                               row_x = row_x upd, row_y = row_y upd, row_z = row_z upd,
                               row_latitude = row_latitude upd,
                               row_longitude = row_longitude upd,
                               row_timestamp = row_timestamp upd\<rparr>, db3)))))"

definition update_processed_agent_data ::
  "int \<Rightarrow> 'f ProcessedAgentDataRequest \<Rightarrow> 'f Session \<Rightarrow>
     (exn + 'f ProcessedAgentDataInDB) \<times> 'f Session" where
  "update_processed_agent_data processed_agent_data_id data db =
     except_Exception (update_processed_agent_data_try processed_agent_data_id data db)"

subsection \<open>\<^verbatim>\<open>DELETE /processed_agent_data/{processed_agent_data_id}\<close>\<close>

definition delete_processed_agent_data_try ::
  "int \<Rightarrow> 'f Session \<Rightarrow> (exn + string) \<times> 'f Session" where
  "delete_processed_agent_data_try processed_agent_data_id db =
     (case execute_delete processed_agent_data_id db of
        (Inl e, db1) \<Rightarrow> (Inl e, db1)
      | (Inr u, db1) \<Rightarrow>
          (case commit db1 of
             (Inl e, db2) \<Rightarrow> (Inl e, db2)
           | (Inr u, db2) \<Rightarrow> (Inr ''data deleted successfully'', db2)))"

definition delete_processed_agent_data ::
  "int \<Rightarrow> 'f Session \<Rightarrow> (exn + string) \<times> 'f Session" where
  "delete_processed_agent_data processed_agent_data_id db =
     except_Exception (delete_processed_agent_data_try processed_agent_data_id db)"

section \<open>The subscriber set and the WebSocket endpoint\<close>

text \<open>
  Python compares values of any class. The kinds of value that meet here are the
  \<^verbatim>\<open>WebSocket\<close> connections, which are equal only to themselves (the number is the
  identity of the object), the integer \<^verbatim>\<open>user_id\<close>, and the string that is the key of a
  \<^verbatim>\<open>KeyError\<close>.
\<close>

datatype pyobj = PyInt int | PyStr string | WebSocket nat

datatype py_error = KeyError pyobj | TypeError string | RuntimeError string

text \<open>\<^verbatim>\<open>subscriptions.add(websocket)\<close> and \<^verbatim>\<open>subscriptions.remove(websocket)\<close> of Python's \<^verbatim>\<open>set\<close>.\<close>

definition set_add :: "pyobj \<Rightarrow> pyobj set \<Rightarrow> pyobj set" where
  "set_add h subscriptions = insert h subscriptions"

definition set_remove :: "pyobj \<Rightarrow> pyobj set \<Rightarrow> py_error + pyobj set" where
  "set_remove h subscriptions =
     (if h \<in> subscriptions then Inr (subscriptions - {h}) else Inl (KeyError h))"

text \<open>
  What \<^verbatim>\<open>await websocket.receive_text()\<close> does when it completes:
  \<^item> \<open>Text t\<close>: a text frame has arrived, and the call returns \<open>t\<close>;
  \<^item> \<open>Binary\<close>: a binary frame has arrived; its message has no \<^verbatim>\<open>"text"\<close> entry, and the
    call raises \<^verbatim>\<open>KeyError('text')\<close>;
  \<^item> \<open>Disconnect\<close>: the peer has closed, and the call raises \<^verbatim>\<open>WebSocketDisconnect\<close>;
  \<^item> \<open>Failure msg\<close>: the call raises another exception.
\<close>

datatype receive = Text string | Binary | Disconnect | Failure string

datatype outcome = Waiting | Returned | Raised py_error

text \<open>
  \<^verbatim>\<open>websocket_endpoint\<close> is a coroutine: it runs from one \<^verbatim>\<open>await\<close> to the next without
  interruption, and the coroutines of the other connections run while it waits. It is
  modelled in the two pieces that run in one go.

  The first piece runs when \<^verbatim>\<open>websocket.accept()\<close> has completed: the connection is added
  to the set, and the coroutine waits in \<^verbatim>\<open>receive_text\<close>.
\<close>

definition websocket_endpoint_accept :: "pyobj \<Rightarrow> pyobj set \<Rightarrow> pyobj set" where
  "websocket_endpoint_accept websocket subscriptions = set_add websocket subscriptions"

text \<open>
  The second piece runs when \<^verbatim>\<open>receive_text\<close> completes. After a text the loop goes round
  and the coroutine waits again (\<open>Waiting\<close>). \<^verbatim>\<open>WebSocketDisconnect\<close> is the only exception
  caught: the connection is removed from the set and the coroutine returns, or the
  \<^verbatim>\<open>KeyError\<close> of \<^verbatim>\<open>remove\<close> leaves it. Any other exception leaves the coroutine at once, and
  the set is not touched.
\<close>

fun websocket_endpoint_receive :: "pyobj \<Rightarrow> receive \<Rightarrow> pyobj set \<Rightarrow> outcome \<times> pyobj set" where
  "websocket_endpoint_receive websocket (Text t) subscriptions = (Waiting, subscriptions)"
| "websocket_endpoint_receive websocket Disconnect subscriptions =
     (case set_remove websocket subscriptions of
        Inl e \<Rightarrow> (Raised e, subscriptions)
      | Inr subscriptions1 \<Rightarrow> (Returned, subscriptions1))"
| "websocket_endpoint_receive websocket Binary subscriptions =
     (Raised (KeyError (PyStr ''text'')), subscriptions)"
| "websocket_endpoint_receive websocket (Failure msg) subscriptions =
     (Raised (RuntimeError msg), subscriptions)"

text \<open>
  The event loop. An event is for one connection: its handshake has completed
  (\<open>Connect\<close>), or its pending \<^verbatim>\<open>receive_text\<close> has completed (\<open>Receive\<close>). The state is the
  set of the connections whose coroutine waits in \<^verbatim>\<open>receive_text\<close>, and the global
  \<^verbatim>\<open>subscriptions\<close>, which all the coroutines share. Every connection is an object of its
  own; an event for a connection that cannot have it (a handshake of one that waits, a
  frame for one that does not) does not occur and changes nothing.
\<close>

datatype event = Connect nat | Receive nat receive

fun websocket_endpoint :: "event \<Rightarrow> nat set \<times> pyobj set \<Rightarrow> nat set \<times> pyobj set" where
  "websocket_endpoint (Connect n) (waiting, subscriptions) =
     (if n \<in> waiting then (waiting, subscriptions)
      else (insert n waiting, websocket_endpoint_accept (WebSocket n) subscriptions))"
| "websocket_endpoint (Receive n r) (waiting, subscriptions) =
     (if n \<notin> waiting then (waiting, subscriptions)
      else (case websocket_endpoint_receive (WebSocket n) r subscriptions of
              (Waiting, subscriptions1) \<Rightarrow> (waiting, subscriptions1)
            | (Returned, subscriptions1) \<Rightarrow> (waiting - {n}, subscriptions1)
            | (Raised e, subscriptions1) \<Rightarrow> (waiting - {n}, subscriptions1)))"

fun websocket_events :: "event list \<Rightarrow> nat set \<times> pyobj set \<Rightarrow> nat set \<times> pyobj set" where
  "websocket_events [] state = state"
| "websocket_events (e # es) state = websocket_events es (websocket_endpoint e state)"

text \<open>
  \<^verbatim>\<open>send_data_to_subscribers\<close>. The result is the list of the frames sent, each with the
  connection it went to. \<^verbatim>\<open>subscriptions[user_id]\<close> subscripts a \<^verbatim>\<open>set\<close>, which raises
  \<^verbatim>\<open>TypeError\<close> before anything is sent.
\<close>

definition send_data_to_subscribers ::
  "int \<Rightarrow> 'd \<Rightarrow> pyobj set \<Rightarrow> py_error + (pyobj \<times> string) list" where
  "send_data_to_subscribers user_id data subscriptions =
     (if PyInt user_id \<in> subscriptions
      then Inl (TypeError (quoted ''set'' @ '' object is not subscriptable''))
      else Inr [])"

section \<open>The application\<close>

text \<open>
  The state of the process: the database, the global \<^verbatim>\<open>subscriptions\<close>, and the frames
  sent so far over the WebSocket connections. A request runs its endpoint inside
  \<open>create_db_session\<close>.
\<close>

record 'f App =
  database :: "'f Session"
  subscriptions :: "pyobj set"
  sent :: "(pyobj \<times> string) list"

definition post_processed_agent_data ::
  "'f ProcessedAgentDataRequest list \<Rightarrow> 'f App \<Rightarrow> (exn + string) \<times> 'f App" where
  "post_processed_agent_data data app =
     (case create_db_session (create_processed_agent_data data) (database app) of
        (res, db1) \<Rightarrow> (res, app\<lparr>database := db1\<rparr>))"

definition get_processed_agent_data ::
  "int \<Rightarrow> 'f App \<Rightarrow> (exn + 'f ProcessedAgentDataInDB) \<times> 'f App" where
  "get_processed_agent_data i app =
     (case create_db_session (read_processed_agent_data i) (database app) of
        (res, db1) \<Rightarrow> (res, app\<lparr>database := db1\<rparr>))"

definition put_processed_agent_data ::
  "int \<Rightarrow> 'f ProcessedAgentDataRequest \<Rightarrow> 'f App \<Rightarrow>
     (exn + 'f ProcessedAgentDataInDB) \<times> 'f App" where
  "put_processed_agent_data i data app =
     (case create_db_session (update_processed_agent_data i data) (database app) of
        (res, db1) \<Rightarrow> (res, app\<lparr>database := db1\<rparr>))"

definition delete_processed_agent_data_request ::
  "int \<Rightarrow> 'f App \<Rightarrow> (exn + string) \<times> 'f App" where
  "delete_processed_agent_data_request i app =
     (case create_db_session (delete_processed_agent_data i) (database app) of
        (res, db1) \<Rightarrow> (res, app\<lparr>database := db1\<rparr>))"

section \<open>Vocabulary of the properties\<close>

text \<open>
  \<open>matches r row\<close>: the row is equal to the record input \<open>r\<close> in every field but \<^verbatim>\<open>id\<close>.
\<close>

definition matches ::
  "'f ProcessedAgentDataRequest \<Rightarrow> 'f ProcessedAgentDataInDB \<Rightarrow> bool" where
  "matches r row \<longleftrightarrow>
     row_road_state row = road_state r \<and>
     row_x row = acc_x (accelerometer (agent_data r)) \<and>
     row_y row = acc_y (accelerometer (agent_data r)) \<and>
     row_z row = acc_z (accelerometer (agent_data r)) \<and>
     row_latitude row = gps_latitude (gps (agent_data r)) \<and>
     row_longitude row = gps_longitude (gps (agent_data r)) \<and>
     row_timestamp row = timestamp (agent_data r)"

text \<open>
  \<open>stored tz r row\<close>: the row holds the values of the record input \<open>r\<close> as the columns keep
  them in a session whose time zone is \<open>tz\<close>: the six other values as they are, the
  timestamp without its zone.
\<close>

definition stored :: "int \<Rightarrow> 'f ProcessedAgentDataRequest \<Rightarrow> 'f ProcessedAgentDataInDB \<Rightarrow> bool" where
  "stored tz r row \<longleftrightarrow>
     row_road_state row = road_state r \<and>
     row_x row = acc_x (accelerometer (agent_data r)) \<and>
     row_y row = acc_y (accelerometer (agent_data r)) \<and>
     row_z row = acc_z (accelerometer (agent_data r)) \<and>
     row_latitude row = gps_latitude (gps (agent_data r)) \<and>
     row_longitude row = gps_longitude (gps (agent_data r)) \<and>
     row_timestamp row = to_timestamp tz (timestamp (agent_data r))"

text \<open>The values that an insert or an update statement takes from a record input.\<close>

definition column_values :: "'f ProcessedAgentDataRequest \<Rightarrow> 'f ColumnValues" where
  "column_values r =
     \<lparr>val_road_state = road_state r,
      val_x = acc_x (accelerometer (agent_data r)),
      val_y = acc_y (accelerometer (agent_data r)),
      val_z = acc_z (accelerometer (agent_data r)),
      val_latitude = gps_latitude (gps (agent_data r)),
      val_longitude = gps_longitude (gps (agent_data r)),
      val_timestamp = timestamp (agent_data r)\<rparr>"

text \<open>
  The table after \<^verbatim>\<open>UPDATE ... WHERE id = i\<close> with the values of \<open>r\<close>, in a session whose
  time zone is \<open>tz\<close>.
\<close>

definition updated_rows ::
  "int \<Rightarrow> int \<Rightarrow> 'f ProcessedAgentDataRequest \<Rightarrow> 'f ProcessedAgentDataInDB list \<Rightarrow>
     'f ProcessedAgentDataInDB list" where
  "updated_rows tz i r rows =
     filter (\<lambda>row. row_id row \<noteq> i) rows @
     map (\<lambda>row. with_id (row_id row) (kept tz (column_values r)))
       (filter (\<lambda>row. row_id row = i) rows)"

text \<open>The next \<open>n\<close> calls of \<^verbatim>\<open>db.execute\<close> and \<^verbatim>\<open>db.commit\<close> raise nothing.\<close>

definition calls_succeed :: "nat \<Rightarrow> 'f Session \<Rightarrow> bool" where
  "calls_succeed n db \<longleftrightarrow> list_all (\<lambda>f. f = None) (take n (faults db))"

text \<open>Every member of the set is a \<^verbatim>\<open>WebSocket\<close>, as the annotation \<^verbatim>\<open>Set[WebSocket]\<close> says.\<close>

definition only_websockets :: "pyobj set \<Rightarrow> bool" where
  "only_websockets subs \<longleftrightarrow> (\<forall>h \<in> subs. \<exists>n. h = WebSocket n)"

text \<open>Every connection whose coroutine waits in \<^verbatim>\<open>receive_text\<close> is in the set.\<close>

definition all_registered :: "nat set \<times> pyobj set \<Rightarrow> bool" where
  "all_registered state \<longleftrightarrow> (\<forall>n \<in> fst state. WebSocket n \<in> snd state)"

subsection \<open>Example states\<close>

text \<open>
  The record of the scenario in the specification, whose timestamp is
  \<^verbatim>\<open>2024-01-01T00:00:00Z\<close>; a second one, at \<^verbatim>\<open>2024-01-01T00:01:00+02:00\<close>; a third one, whose
  timestamp \<^verbatim>\<open>2024-01-01T00:02:00\<close> is naive. Then the states of the application: a fresh
  one (the sequence starts at 1, the session's time zone is UTC), one with two subscribers
  connected, one whose table holds the first record, one whose table holds the first and
  the third, and the one-row state with a database whose next call raises an error with
  the given message. The type parameter is \<open>int\<close> here.
\<close>

definition example_record :: "int ProcessedAgentDataRequest" where
  "example_record =
     \<lparr>road_state = ''clear'',
      agent_data =
        \<lparr>accelerometer = \<lparr>acc_x = 1, acc_y = 2, acc_z = 3\<rparr>,
         gps = \<lparr>gps_latitude = 10, gps_longitude = 20\<rparr>,
         timestamp = Aware 1704067200000000 0\<rparr>\<rparr>"

definition example_record2 :: "int ProcessedAgentDataRequest" where
  "example_record2 =
     \<lparr>road_state = ''bumpy'',
      agent_data =
        \<lparr>accelerometer = \<lparr>acc_x = 4, acc_y = 5, acc_z = 6\<rparr>,
         gps = \<lparr>gps_latitude = 11, gps_longitude = 21\<rparr>,
         timestamp = Aware 1704067260000000 7200000000\<rparr>\<rparr>"

definition naive_record :: "int ProcessedAgentDataRequest" where
  "naive_record =
     \<lparr>road_state = ''wet'',
      agent_data =
        \<lparr>accelerometer = \<lparr>acc_x = 7, acc_y = 8, acc_z = 9\<rparr>,
         gps = \<lparr>gps_latitude = 12, gps_longitude = 22\<rparr>,
         timestamp = Naive 1704067320000000\<rparr>\<rparr>"

definition empty_app :: "int App" where
  "empty_app =
     \<lparr>database = \<lparr>committed = [], pending = [], seq = 1, timezone = 0, faults = []\<rparr>,
      subscriptions = {},
      sent = []\<rparr>"

definition subscribed_app :: "int App" where
  "subscribed_app = empty_app\<lparr>subscriptions := {WebSocket 0, WebSocket 1}\<rparr>"

definition one_row_app :: "int App" where
  "one_row_app = snd (post_processed_agent_data [example_record] empty_app)"

definition two_row_app :: "int App" where
  "two_row_app = snd (post_processed_agent_data [example_record, naive_record] empty_app)"

definition failing_app :: "string \<Rightarrow> int App" where
  "failing_app msg = one_row_app\<lparr>database := (database one_row_app)\<lparr>faults := [Some msg]\<rparr>\<rparr>"

section \<open>The storage calls and the endpoints, step by step\<close>

lemmas run_defs =
  post_processed_agent_data_def get_processed_agent_data_def put_processed_agent_data_def
  delete_processed_agent_data_request_def create_db_session_def
  create_processed_agent_data_def create_processed_agent_data_try_def
  read_processed_agent_data_def read_processed_agent_data_try_def
  update_processed_agent_data_def update_processed_agent_data_try_def
  delete_processed_agent_data_def delete_processed_agent_data_try_def
  except_Exception_def execute_insert_def execute_select_fetchone_def
  execute_update_returning_def execute_delete_def commit_def next_fault_def with_id_def
  kept_def to_timestamp_def

subsection \<open>What a call leaves unchanged\<close>

lemma next_fault_committed:
  "next_fault db = (f, db1) \<Longrightarrow>
     committed db1 = committed db \<and> pending db1 = pending db \<and> seq db1 = seq db \<and>
     timezone db1 = timezone db"
  by (auto simp: next_fault_def split: list.splits)

lemma execute_insert_committed: "execute_insert v db = (res, db1) \<Longrightarrow> committed db1 = committed db"
  by (auto simp: execute_insert_def split: prod.splits option.splits if_splits dest: next_fault_committed)

lemma insert_elements_committed: "insert_elements data db = (res, db1) \<Longrightarrow> committed db1 = committed db"
proof (induction data arbitrary: db)
  case Nil
  then show ?case by simp
next
  case (Cons element rest)
  then show ?case
    by (auto split: prod.splits sum.splits dest: execute_insert_committed)
qed

lemma select_result:
  "execute_select_fetchone i db = (res, db1) \<Longrightarrow>
     pending db1 = pending db \<and> committed db1 = committed db \<and> timezone db1 = timezone db"
  by (auto simp: execute_select_fetchone_def split: prod.splits option.splits
      dest: next_fault_committed)

lemma commit_ok: "commit db = (Inr u, db1) \<Longrightarrow> committed db1 = pending db"
  by (auto simp: commit_def split: prod.splits option.splits dest: next_fault_committed)

lemma commit_committed_err: "commit db = (Inl e, db1) \<Longrightarrow> committed db1 = committed db"
  by (auto simp: commit_def split: prod.splits option.splits dest: next_fault_committed)

lemma row_id_with_id [simp]: "row_id (with_id i v) = i"
  by (simp add: with_id_def)

lemma stored_with_id: "stored tz r (with_id i (kept tz (column_values r)))"
  by (simp add: stored_def with_id_def kept_def column_values_def)

lemma stored_naive:
  "stored tz r row \<Longrightarrow> timestamp (agent_data r) = Naive t \<Longrightarrow> matches r row"
  by (simp add: stored_def matches_def to_timestamp_def)

lemma stored_aware:
  "stored tz r row \<Longrightarrow> timestamp (agent_data r) = Aware t offset \<Longrightarrow>
     row_timestamp row = Naive (t - offset + tz) \<and> \<not> matches r row"
  by (simp add: stored_def matches_def to_timestamp_def)

subsection \<open>The insert loop\<close>

lemma execute_insert_ok:
  "execute_insert v db = (Inr u, db1) \<Longrightarrow>
     pending db1 = pending db @ [with_id (seq db) (kept (timezone db) v)] \<and>
     seq db1 = seq db + 1 \<and> timezone db1 = timezone db \<and>
     seq db \<notin> set (map row_id (pending db))"
  by (auto simp: execute_insert_def split: prod.splits option.splits if_splits dest: next_fault_committed)

lemma insert_elements_ok:
  "insert_elements data db = (Inr u, db1) \<Longrightarrow>
     (\<exists>new. pending db1 = pending db @ new \<and> list_all2 (stored (timezone db)) data new \<and>
        map row_id new = map (\<lambda>k. seq db + int k) [0..<length data])"
proof (induction data arbitrary: db)
  case Nil
  then show ?case by simp
next
  case (Cons element rest)
  let ?v = "\<lparr>val_road_state = road_state element,
              val_x = acc_x (accelerometer (agent_data element)),
              val_y = acc_y (accelerometer (agent_data element)),
              val_z = acc_z (accelerometer (agent_data element)),
              val_latitude = gps_latitude (gps (agent_data element)),
              val_longitude = gps_longitude (gps (agent_data element)),
              val_timestamp = timestamp (agent_data element)\<rparr>"
  from Cons.prems obtain db2 where
    ins: "execute_insert ?v db = (Inr (), db2)" and rest: "insert_elements rest db2 = (Inr u, db1)"
    by (auto split: prod.splits sum.splits)
  let ?row = "with_id (seq db) (kept (timezone db) ?v)"
  from execute_insert_ok [OF ins] have
    p2: "pending db2 = pending db @ [?row]" and s2: "seq db2 = seq db + 1"
    and t2: "timezone db2 = timezone db"
    by simp_all
  from Cons.IH [OF rest] t2 obtain new where
    new: "pending db1 = pending db2 @ new" "list_all2 (stored (timezone db)) rest new"
      "map row_id new = map (\<lambda>k. seq db2 + int k) [0..<length rest]"
    by auto
  have m: "stored (timezone db) element ?row"
    by (simp add: stored_def with_id_def kept_def)
  have ids: "map row_id (?row # new) =
      map (\<lambda>k. seq db + int k) [0..<length (element # rest)]"
  proof -
    have "[0..<length (element # rest)] = 0 # map Suc [0..<length rest]"
      by (simp add: upt_conv_Cons map_Suc_upt del: upt_Suc)
    then show ?thesis
      using new(3) s2 by (simp add: comp_def add.assoc del: upt_Suc)
  qed
  have "pending db1 = pending db @ (?row # new)"
    using new(1) p2 by simp
  with m new(2) ids show ?case
    by (metis list_all2_Cons)
qed

lemma insert_elements_fresh:
  "insert_elements data db = (Inr u, db1) \<Longrightarrow> k < length data \<Longrightarrow>
     seq db + int k \<notin> set (map row_id (pending db))"
proof (induction data arbitrary: db k)
  case Nil
  then show ?case by simp
next
  case (Cons element rest)
  from Cons.prems(1) obtain v db2 where
    ins: "execute_insert v db = (Inr (), db2)" and rest: "insert_elements rest db2 = (Inr u, db1)"
    by (auto split: prod.splits sum.splits)
  from execute_insert_ok [OF ins] have
    p2: "pending db2 = pending db @ [with_id (seq db) (kept (timezone db) v)]"
    and s2: "seq db2 = seq db + 1"
    and fresh: "seq db \<notin> set (map row_id (pending db))"
    by simp_all
  show ?case
  proof (cases k)
    case 0
    with fresh show ?thesis by simp
  next
    case (Suc j)
    with Cons.prems(2) have "j < length rest" by simp
    from Cons.IH [OF rest this] have "seq db2 + int j \<notin> set (map row_id (pending db2))" .
    moreover have "seq db2 + int j = seq db + int k" using s2 Suc by simp
    ultimately show ?thesis using p2 by simp
  qed
qed

lemma create_try_ok:
  assumes "create_processed_agent_data_try data db = (Inr res, db1)"
  shows "res = ''data added successfully'' \<and>
        (\<exists>new. committed db1 = pending db @ new \<and>
           list_all2 (stored (timezone db)) data new \<and>
           map row_id new = map (\<lambda>k. seq db + int k) [0..<length data])"
proof -
  from assms obtain u db2 where
    ins: "insert_elements data db = (Inr u, db2)" and com: "commit db2 = (Inr (), db1)"
    and res: "res = ''data added successfully''"
    by (auto simp: create_processed_agent_data_try_def split: prod.splits sum.splits)
  from commit_ok [OF com] have "committed db1 = pending db2" .
  with insert_elements_ok [OF ins] res show ?thesis by simp
qed

lemma create_try_err:
  assumes "create_processed_agent_data_try data db = (Inl e, db1)"
  shows "committed db1 = committed db"
proof -
  from assms consider
      (ins) "insert_elements data db = (Inl e, db1)"
    | (com) u db2 where "insert_elements data db = (Inr u, db2)" "commit db2 = (Inl e, db1)"
    by (auto simp: create_processed_agent_data_try_def split: prod.splits sum.splits)
  then show ?thesis
  proof cases
    case ins
    then show ?thesis by (rule insert_elements_committed)
  next
    case com
    then show ?thesis
      using insert_elements_committed commit_committed_err by metis
  qed
qed

lemma create_ok:
  "create_processed_agent_data data db = (Inr res, db1) \<Longrightarrow>
     create_processed_agent_data_try data db = (Inr res, db1)"
  by (auto simp: create_processed_agent_data_def split: prod.splits sum.splits)

lemma create_err:
  "create_processed_agent_data data db = (Inl e, db1) \<Longrightarrow>
     e = HTTPException 500 ''data create failed'' \<and>
     (\<exists>e1. create_processed_agent_data_try data db = (Inl e1, db1))"
  by (auto simp: create_processed_agent_data_def split: prod.splits sum.splits)

subsection \<open>Looking a row up\<close>

lemma find_append_None:
  "find P xs = None \<Longrightarrow> find P (xs @ ys) = find P ys"
  by (induction xs) (auto split: if_splits)

lemma find_new_row:
  assumes ids: "map row_id new = map (\<lambda>k. s + int k) [0..<n]" and k: "k < n"
  shows "find (\<lambda>r. row_id r = s + int k) new = Some (new ! k)"
proof -
  have len: "length new = n"
    using ids by (metis length_map length_upt diff_zero)
  have nth: "row_id (new ! j) = s + int j" if "j < n" for j
  proof -
    have "map row_id new ! j = map (\<lambda>k. s + int k) [0..<n] ! j" using ids by simp
    with that len show ?thesis by simp
  qed
  show ?thesis
    unfolding find_Some_iff
  proof (intro exI [of _ k] conjI allI impI)
    show "k < length new" using k len by simp
    show "row_id (new ! k) = s + int k" using nth k by simp
    show "new ! k = new ! k" ..
    fix j assume "j < k"
    with k nth [of j] show "row_id (new ! j) \<noteq> s + int k" by simp
  qed
qed

lemma updated_rows_ids:
  "mset (map row_id (updated_rows tz i r rows)) = mset (map row_id rows)"
proof -
  have "map row_id (updated_rows tz i r rows) =
      map row_id (filter (\<lambda>row. row_id row \<noteq> i) rows) @
      map row_id (filter (\<lambda>row. row_id row = i) rows)"
    by (simp add: updated_rows_def comp_def)
  also have "mset \<dots> = mset (map row_id rows)"
    by (induction rows) simp_all
  finally show ?thesis .
qed

lemma updated_rows_others:
  "filter (\<lambda>row. row_id row \<noteq> i) (updated_rows tz i r rows) =
     filter (\<lambda>row. row_id row \<noteq> i) rows"
  by (simp add: updated_rows_def filter_map comp_def)

lemma first_written:
  "(case map (\<lambda>row. with_id (row_id row) v) (filter (\<lambda>row. row_id row = i) rows) of
      [] \<Rightarrow> None
    | r # rs \<Rightarrow> Some r) =
   (case find (\<lambda>row. row_id row = i) rows of
      None \<Rightarrow> None
    | Some row \<Rightarrow> Some (with_id i v))"
  by (induction rows) auto

lemma find_written:
  "find (\<lambda>row. row_id row = i)
     (map (\<lambda>row. with_id (row_id row) v) (filter (\<lambda>row. row_id row = i) rows)) =
   (case find (\<lambda>row. row_id row = i) rows of
      None \<Rightarrow> None
    | Some row \<Rightarrow> Some (with_id i v))"
  by (induction rows) auto

lemma find_updated_rows:
  "find (\<lambda>row. row_id row = i) (updated_rows tz i r rows) =
     (case find (\<lambda>row. row_id row = i) rows of
        None \<Rightarrow> None
      | Some row \<Rightarrow> Some (with_id i (kept tz (column_values r))))"
proof -
  have "find (\<lambda>row. row_id row = i) (filter (\<lambda>row. row_id row \<noteq> i) rows) = None"
    by (simp add: find_None_iff)
  then show ?thesis
    by (simp add: updated_rows_def find_append_None find_written)
qed

subsection \<open>Calls that do not fail\<close>

lemma next_fault_ok:
  "calls_succeed (Suc n) db \<Longrightarrow> next_fault db = (None, db\<lparr>faults := tl (faults db)\<rparr>)"
  by (cases "faults db") (auto simp: calls_succeed_def next_fault_def)

lemma calls_succeed_tl:
  "calls_succeed (Suc n) db \<Longrightarrow> calls_succeed n (db\<lparr>faults := tl (faults db)\<rparr>)"
  by (cases "faults db") (auto simp: calls_succeed_def)

lemma calls_succeed_upd [simp]:
  "calls_succeed n (db\<lparr>pending := p\<rparr>) = calls_succeed n db"
  "calls_succeed n (db\<lparr>committed := c\<rparr>) = calls_succeed n db"
  "calls_succeed n (db\<lparr>seq := s\<rparr>) = calls_succeed n db"
  by (simp_all add: calls_succeed_def)

lemma calls_succeed_mono: "calls_succeed n db \<Longrightarrow> m \<le> n \<Longrightarrow> calls_succeed m db"
  using set_take_subset_set_take [of m n "faults db"]
  by (auto simp: calls_succeed_def list_all_iff)

lemma calls_succeed_drop:
  "calls_succeed (k + n) db \<Longrightarrow> calls_succeed n (db\<lparr>faults := drop k (faults db)\<rparr>)"
  by (auto simp: calls_succeed_def list_all_iff take_add)

lemma tl2: "tl (tl xs) = drop 2 xs"
  by (simp add: drop_Suc numeral_2_eq_2)

lemma tl3: "tl (tl (tl xs)) = drop 3 xs"
  by (simp add: drop_Suc numeral_3_eq_3)

lemma select_ok:
  "calls_succeed (Suc n) db \<Longrightarrow>
     execute_select_fetchone i db =
       (Inr (find (\<lambda>r. row_id r = i) (pending db)), db\<lparr>faults := tl (faults db)\<rparr>)"
  by (simp add: execute_select_fetchone_def next_fault_ok)

lemma returned_row:
  "(case map (\<lambda>row. with_id (row_id row) (kept tz (column_values r)))
           (filter (\<lambda>row. row_id row = i) rows) of
      [] \<Rightarrow> None
    | r # rs \<Rightarrow> Some r) =
   find (\<lambda>row. row_id row = i) (updated_rows tz i r rows)"
  by (simp only: first_written find_updated_rows)

lemma update_returning_ok:
  assumes "calls_succeed (Suc n) db"
  shows "execute_update_returning i (column_values r) db =
       (Inr (find (\<lambda>row. row_id row = i) (updated_rows (timezone db) i r (pending db))),
        db\<lparr>faults := tl (faults db),
           pending := updated_rows (timezone db) i r (pending db)\<rparr>)"
proof -
  have nf: "next_fault db = (None, db\<lparr>faults := tl (faults db)\<rparr>)"
    using assms by (rule next_fault_ok)
  show ?thesis
    unfolding execute_update_returning_def nf
    by (simp add: Let_def returned_row) (simp add: updated_rows_def)
qed

lemma commit_succeeds:
  "calls_succeed (Suc n) db \<Longrightarrow>
     commit db = (Inr (), db\<lparr>faults := tl (faults db), committed := pending db\<rparr>)"
  by (simp add: commit_def next_fault_ok)

lemma delete_ok:
  "calls_succeed (Suc n) db \<Longrightarrow>
     execute_delete i db =
       (Inr (), db\<lparr>faults := tl (faults db),
                   pending := filter (\<lambda>row. row_id row \<noteq> i) (pending db)\<rparr>)"
  by (simp add: execute_delete_def next_fault_ok)

subsection \<open>Calls that fail\<close>

lemma next_fault_None:
  "next_fault db = (None, db1) \<Longrightarrow> calls_succeed (Suc 0) db \<and> faults db1 = tl (faults db)"
  by (cases "faults db") (auto simp: next_fault_def calls_succeed_def)

lemma execute_insert_calls:
  "execute_insert v db = (Inr u, db1) \<Longrightarrow>
     calls_succeed (Suc 0) db \<and> faults db1 = tl (faults db)"
  by (auto simp: execute_insert_def split: prod.splits option.splits if_splits
      dest: next_fault_None)

lemma calls_succeed_Suc:
  "calls_succeed (Suc 0) db \<Longrightarrow> faults db1 = tl (faults db) \<Longrightarrow> calls_succeed n db1 \<Longrightarrow>
     calls_succeed (Suc n) db"
  by (cases "faults db") (auto simp: calls_succeed_def)

lemma insert_elements_calls:
  "insert_elements data db = (Inr u, db1) \<Longrightarrow>
     calls_succeed (length data) db \<and> faults db1 = drop (length data) (faults db)"
proof (induction data arbitrary: db)
  case Nil
  then show ?case by (simp add: calls_succeed_def)
next
  case (Cons element rest)
  from Cons.prems obtain v db2 where
    ins: "execute_insert v db = (Inr (), db2)" and rest: "insert_elements rest db2 = (Inr u, db1)"
    by (auto split: prod.splits sum.splits)
  from execute_insert_calls [OF ins] have
    c: "calls_succeed (Suc 0) db" and f: "faults db2 = tl (faults db)" by simp_all
  from Cons.IH [OF rest] have
    c2: "calls_succeed (length rest) db2" and f2: "faults db1 = drop (length rest) (faults db2)"
    by simp_all
  from calls_succeed_Suc [OF c f c2] f f2 show ?case
    by (simp add: drop_Suc)
qed

lemma commit_calls: "commit db = (Inr u, db1) \<Longrightarrow> calls_succeed (Suc 0) db"
  by (auto simp: commit_def split: prod.splits option.splits dest: next_fault_None)

lemma create_try_calls:
  assumes "create_processed_agent_data_try data db = (Inr res, db1)"
  shows "calls_succeed (Suc (length data)) db"
proof -
  from assms obtain u db2 where
    ins: "insert_elements data db = (Inr u, db2)" and com: "commit db2 = (Inr (), db1)"
    by (auto simp: create_processed_agent_data_try_def split: prod.splits sum.splits)
  from insert_elements_calls [OF ins] commit_calls [OF com] have
    "list_all (\<lambda>f. f = None) (take (length data) (faults db))"
    "list_all (\<lambda>f. f = None) (take (Suc 0) (drop (length data) (faults db)))"
    by (simp_all add: calls_succeed_def)
  then have "list_all (\<lambda>f. f = None) (take (length data + Suc 0) (faults db))"
    unfolding take_add by simp
  then show ?thesis by (simp add: calls_succeed_def)
qed

lemma fault_scheduled:
  assumes "faults db = replicate k None @ Some msg # fs" and "k < n"
  shows "\<not> calls_succeed n db"
proof -
  from assms have "Some msg \<in> set (take n (faults db))"
    by (simp add: take_Cons')
  then show ?thesis
    by (auto simp: calls_succeed_def list_all_iff)
qed

lemma create_fails:
  assumes f: "faults db = replicate k None @ Some msg # fs" and k: "k \<le> length data"
  shows "fst (create_processed_agent_data data db) = Inl (HTTPException 500 ''data create failed'')"
proof (cases "create_processed_agent_data data db")
  case (Pair res db1)
  show ?thesis
  proof (cases res)
    case (Inl e)
    with Pair create_err [of data db e db1] show ?thesis by simp
  next
    case (Inr r)
    with Pair have "create_processed_agent_data_try data db = (Inr r, db1)"
      by (simp add: create_ok)
    from create_try_calls [OF this] fault_scheduled [OF f, of "Suc (length data)"] k
    show ?thesis by simp
  qed
qed

lemma read_fails:
  "faults db = Some msg # fs \<Longrightarrow>
     fst (read_processed_agent_data i db) = Inl (HTTPException 500 (''Error: '' @ msg))"
  by (simp add: read_processed_agent_data_def read_processed_agent_data_try_def
      except_Exception_def execute_select_fetchone_def next_fault_def)

lemma delete_fails:
  "faults db = Some msg # fs \<or> faults db = None # Some msg # fs \<Longrightarrow>
     fst (delete_processed_agent_data i db) = Inl (HTTPException 500 (''Error: '' @ msg))"
  by (auto simp: delete_processed_agent_data_def delete_processed_agent_data_try_def
      except_Exception_def execute_delete_def commit_def next_fault_def)

lemma update_fails_select:
  "faults db = Some msg # fs \<Longrightarrow>
     fst (update_processed_agent_data i r db) = Inl (HTTPException 500 (''Error: '' @ msg))"
  by (simp add: update_processed_agent_data_def update_processed_agent_data_try_def
      except_Exception_def execute_select_fetchone_def next_fault_def)

lemma update_fails_later:
  assumes "faults db = None # Some msg # fs \<or> faults db = None # None # Some msg # fs"
    and "find (\<lambda>row. row_id row = i) (pending db) = Some existing"
  shows "fst (update_processed_agent_data i r db) = Inl (HTTPException 500 (''Error: '' @ msg))"
  using assms
  by (auto simp: update_processed_agent_data_def update_processed_agent_data_try_def
      except_Exception_def execute_select_fetchone_def execute_update_returning_def
      commit_def next_fault_def Let_def)

subsection \<open>The endpoints on a database that answers\<close>

lemma read_found:
  assumes "calls_succeed (Suc n) db" and "find (\<lambda>r. row_id r = i) (pending db) = Some row"
  shows "read_processed_agent_data i db = (Inr row, db\<lparr>faults := tl (faults db)\<rparr>)"
  using assms
  by (simp add: read_processed_agent_data_def read_processed_agent_data_try_def
      except_Exception_def select_ok)

lemma read_absent:
  assumes "calls_succeed (Suc n) db" and "find (\<lambda>r. row_id r = i) (pending db) = None"
  shows "read_processed_agent_data i db =
    (Inl (HTTPException 500 (''Error: '' @ str_exn (HTTPException 404 ''data not exist''))),
     db\<lparr>faults := tl (faults db)\<rparr>)"
  using assms
  by (simp add: read_processed_agent_data_def read_processed_agent_data_try_def
      except_Exception_def select_ok)

lemma update_found:
  assumes calls: "calls_succeed 3 db"
    and found: "find (\<lambda>row. row_id row = i) (pending db) = Some existing"
  shows "update_processed_agent_data i r db =
    (Inr (with_id i (kept (timezone db) (column_values r))),
     db\<lparr>faults := tl (tl (tl (faults db))),
        pending := updated_rows (timezone db) i r (pending db),
        committed := updated_rows (timezone db) i r (pending db)\<rparr>)"
proof -
  have c3: "calls_succeed (Suc 2) db" using calls by (simp add: numeral_3_eq_3 eval_nat_numeral)
  let ?db1 = "db\<lparr>faults := tl (faults db)\<rparr>"
  have c2: "calls_succeed (Suc 1) ?db1" using calls_succeed_tl [OF c3] by (simp add: eval_nat_numeral)
  let ?db2 = "?db1\<lparr>faults := tl (faults ?db1),
                    pending := updated_rows (timezone db) i r (pending ?db1)\<rparr>"
  have c1: "calls_succeed (Suc 0) ?db2" using calls_succeed_tl [OF c2] by simp
  have sel: "execute_select_fetchone i db = (Inr (Some existing), ?db1)"
    using select_ok [OF c3] found by simp
  have upd: "execute_update_returning i (column_values r) ?db1 =
      (Inr (Some (with_id i (kept (timezone db) (column_values r)))), ?db2)"
    using update_returning_ok [OF c2, of i r] found by (simp add: find_updated_rows)
  have com: "commit ?db2 = (Inr (), ?db2\<lparr>faults := tl (faults ?db2), committed := pending ?db2\<rparr>)"
    using commit_succeeds [OF c1] .
  show ?thesis
    using sel upd com
    unfolding update_processed_agent_data_def update_processed_agent_data_try_def
      except_Exception_def column_values_def [symmetric]
    by (simp add: with_id_def)
qed

lemma update_returning_result:
  "execute_update_returning i (column_values r) db = (Inr upd, db1) \<Longrightarrow>
     pending db1 = updated_rows (timezone db) i r (pending db) \<and>
     committed db1 = committed db \<and>
     upd = find (\<lambda>row. row_id row = i) (updated_rows (timezone db) i r (pending db))"
proof -
  assume run: "execute_update_returning i (column_values r) db = (Inr upd, db1)"
  then obtain db0 where nf: "next_fault db = (None, db0)"
    by (auto simp: execute_update_returning_def split: prod.splits option.splits)
  from next_fault_committed [OF nf] have
    same: "committed db0 = committed db" "pending db0 = pending db" "timezone db0 = timezone db"
    by simp_all
  from run show ?thesis
    unfolding execute_update_returning_def nf
    by (auto simp: Let_def returned_row same) (simp add: updated_rows_def)
qed

lemma update_try_success:
  assumes "update_processed_agent_data_try i r db = (Inr row, db1)"
  shows "committed db1 = updated_rows (timezone db) i r (pending db) \<and>
         find (\<lambda>row. row_id row = i) (updated_rows (timezone db) i r (pending db)) = Some row"
proof -
  from assms obtain existing dba upd dbb where
    sel: "execute_select_fetchone i db = (Inr (Some existing), dba)" and
    upd: "execute_update_returning i (column_values r) dba = (Inr (Some upd), dbb)" and
    com: "commit dbb = (Inr (), db1)" and
    row: "row = upd"
    unfolding update_processed_agent_data_try_def column_values_def [symmetric]
    by (auto split: prod.splits sum.splits option.splits)
  from select_result [OF sel] update_returning_result [OF upd] commit_ok [OF com] row
  show ?thesis by simp
qed

lemma update_success:
  "update_processed_agent_data i r db = (Inr row, db1) \<Longrightarrow>
     update_processed_agent_data_try i r db = (Inr row, db1)"
  by (auto simp: update_processed_agent_data_def except_Exception_def
      split: prod.splits sum.splits)

lemma delete_run:
  assumes calls: "calls_succeed 2 db"
  shows "delete_processed_agent_data i db =
    (Inr ''data deleted successfully'',
     db\<lparr>faults := drop 2 (faults db),
        pending := filter (\<lambda>row. row_id row \<noteq> i) (pending db),
        committed := filter (\<lambda>row. row_id row \<noteq> i) (pending db)\<rparr>)"
proof -
  have c2: "calls_succeed (Suc 1) db" using calls by (simp add: eval_nat_numeral)
  let ?db1 = "db\<lparr>faults := tl (faults db),
                  pending := filter (\<lambda>row. row_id row \<noteq> i) (pending db)\<rparr>"
  have c1: "calls_succeed (Suc 0) ?db1" using calls_succeed_tl [OF c2] by simp
  from delete_ok [OF c2, of i] commit_succeeds [OF c1] show ?thesis
    unfolding delete_processed_agent_data_def delete_processed_agent_data_try_def
      except_Exception_def
    by (simp add: tl2)
qed

subsection \<open>A request opens and closes its session\<close>

lemma app_post:
  "post_processed_agent_data data app =
     (case create_processed_agent_data data
             ((database app)\<lparr>pending := committed (database app)\<rparr>) of
        (res, db1) \<Rightarrow> (res, app\<lparr>database := db1\<lparr>pending := committed db1\<rparr>\<rparr>))"
  by (simp add: post_processed_agent_data_def create_db_session_def split: prod.splits)

lemma app_get:
  "get_processed_agent_data i app =
     (case read_processed_agent_data i ((database app)\<lparr>pending := committed (database app)\<rparr>) of
        (res, db1) \<Rightarrow> (res, app\<lparr>database := db1\<lparr>pending := committed db1\<rparr>\<rparr>))"
  by (simp add: get_processed_agent_data_def create_db_session_def split: prod.splits)

lemma app_put:
  "put_processed_agent_data i r app =
     (case update_processed_agent_data i r
             ((database app)\<lparr>pending := committed (database app)\<rparr>) of
        (res, db1) \<Rightarrow> (res, app\<lparr>database := db1\<lparr>pending := committed db1\<rparr>\<rparr>))"
  by (simp add: put_processed_agent_data_def create_db_session_def split: prod.splits)

lemma app_delete:
  "delete_processed_agent_data_request i app =
     (case delete_processed_agent_data i
             ((database app)\<lparr>pending := committed (database app)\<rparr>) of
        (res, db1) \<Rightarrow> (res, app\<lparr>database := db1\<lparr>pending := committed db1\<rparr>\<rparr>))"
  by (simp add: delete_processed_agent_data_request_def create_db_session_def split: prod.splits)

lemma fst_case_prod: "fst (case p of (res, s) \<Rightarrow> (res, f s)) = fst p"
  by (cases p) simp

subsection \<open>The example states, evaluated\<close>

lemma post_example:
  "post_processed_agent_data [example_record] empty_app =
     (Inr ''data added successfully'',
      \<lparr>database =
         \<lparr>committed = [\<lparr>row_id = 1, row_road_state = ''clear'', row_x = 1, row_y = 2,
                        row_z = 3, row_latitude = 10, row_longitude = 20,
                        row_timestamp = Naive 1704067200000000\<rparr>],
          pending = [\<lparr>row_id = 1, row_road_state = ''clear'', row_x = 1, row_y = 2,
                      row_z = 3, row_latitude = 10, row_longitude = 20,
                      row_timestamp = Naive 1704067200000000\<rparr>],
          seq = 2, timezone = 0, faults = []\<rparr>,
       subscriptions = {}, sent = []\<rparr>)"
  by (simp add: run_defs example_record_def empty_app_def)

lemma one_row_app_eq:
  "one_row_app =
      \<lparr>database =
         \<lparr>committed = [\<lparr>row_id = 1, row_road_state = ''clear'', row_x = 1, row_y = 2,
                        row_z = 3, row_latitude = 10, row_longitude = 20,
                        row_timestamp = Naive 1704067200000000\<rparr>],
          pending = [\<lparr>row_id = 1, row_road_state = ''clear'', row_x = 1, row_y = 2,
                      row_z = 3, row_latitude = 10, row_longitude = 20,
                      row_timestamp = Naive 1704067200000000\<rparr>],
          seq = 2, timezone = 0, faults = []\<rparr>,
       subscriptions = {}, sent = []\<rparr>"
  by (simp add: one_row_app_def post_example)

lemma two_row_app_eq:
  "two_row_app =
      \<lparr>database =
         \<lparr>committed =
            [\<lparr>row_id = 1, row_road_state = ''clear'', row_x = 1, row_y = 2, row_z = 3,
            row_latitude = 10, row_longitude = 20,
            row_timestamp = Naive 1704067200000000\<rparr>,
             \<lparr>row_id = 2, row_road_state = ''wet'', row_x = 7, row_y = 8, row_z = 9,
            row_latitude = 12, row_longitude = 22,
            row_timestamp = Naive 1704067320000000\<rparr>],
          pending =
            [\<lparr>row_id = 1, row_road_state = ''clear'', row_x = 1, row_y = 2, row_z = 3,
            row_latitude = 10, row_longitude = 20,
            row_timestamp = Naive 1704067200000000\<rparr>,
             \<lparr>row_id = 2, row_road_state = ''wet'', row_x = 7, row_y = 8, row_z = 9,
            row_latitude = 12, row_longitude = 22,
            row_timestamp = Naive 1704067320000000\<rparr>],
          seq = 3, timezone = 0, faults = []\<rparr>,
       subscriptions = {}, sent = []\<rparr>"
  by (simp add: two_row_app_def run_defs example_record_def naive_record_def empty_app_def)

lemma put_two_rows_example:
  "put_processed_agent_data 1 example_record2 two_row_app =
     (Inr \<lparr>row_id = 1, row_road_state = ''bumpy'', row_x = 4, row_y = 5, row_z = 6,
            row_latitude = 11, row_longitude = 21,
            row_timestamp = Naive 1704060060000000\<rparr>,
      \<lparr>database =
         \<lparr>committed =
            [\<lparr>row_id = 2, row_road_state = ''wet'', row_x = 7, row_y = 8, row_z = 9,
            row_latitude = 12, row_longitude = 22,
            row_timestamp = Naive 1704067320000000\<rparr>,
             \<lparr>row_id = 1, row_road_state = ''bumpy'', row_x = 4, row_y = 5, row_z = 6,
            row_latitude = 11, row_longitude = 21,
            row_timestamp = Naive 1704060060000000\<rparr>],
          pending =
            [\<lparr>row_id = 2, row_road_state = ''wet'', row_x = 7, row_y = 8, row_z = 9,
            row_latitude = 12, row_longitude = 22,
            row_timestamp = Naive 1704067320000000\<rparr>,
             \<lparr>row_id = 1, row_road_state = ''bumpy'', row_x = 4, row_y = 5, row_z = 6,
            row_latitude = 11, row_longitude = 21,
            row_timestamp = Naive 1704060060000000\<rparr>],
          seq = 3, timezone = 0, faults = []\<rparr>,
       subscriptions = {}, sent = []\<rparr>)"
  by (simp add: two_row_app_eq example_record2_def run_defs Let_def)

lemma failing_app_eq:
  "failing_app msg =
      \<lparr>database =
         \<lparr>committed = [\<lparr>row_id = 1, row_road_state = ''clear'', row_x = 1, row_y = 2,
                        row_z = 3, row_latitude = 10, row_longitude = 20,
                        row_timestamp = Naive 1704067200000000\<rparr>],
          pending = [\<lparr>row_id = 1, row_road_state = ''clear'', row_x = 1, row_y = 2,
                      row_z = 3, row_latitude = 10, row_longitude = 20,
                      row_timestamp = Naive 1704067200000000\<rparr>],
          seq = 2, timezone = 0, faults = [Some msg]\<rparr>,
       subscriptions = {}, sent = []\<rparr>"
  by (simp add: failing_app_def one_row_app_eq)

lemma put_example:
  "put_processed_agent_data 1 example_record2 one_row_app =
     (Inr \<lparr>row_id = 1, row_road_state = ''bumpy'', row_x = 4, row_y = 5, row_z = 6,
           row_latitude = 11, row_longitude = 21, row_timestamp = Naive 1704060060000000\<rparr>,
      \<lparr>database =
         \<lparr>committed = [\<lparr>row_id = 1, row_road_state = ''bumpy'', row_x = 4, row_y = 5,
                        row_z = 6, row_latitude = 11, row_longitude = 21,
                        row_timestamp = Naive 1704060060000000\<rparr>],
          pending = [\<lparr>row_id = 1, row_road_state = ''bumpy'', row_x = 4, row_y = 5,
                      row_z = 6, row_latitude = 11, row_longitude = 21,
                      row_timestamp = Naive 1704060060000000\<rparr>],
          seq = 2, timezone = 0, faults = []\<rparr>,
       subscriptions = {}, sent = []\<rparr>)"
  by (simp add: one_row_app_eq example_record2_def run_defs Let_def)

subsection \<open>The subscriber set\<close>

lemma set_remove_present: "h \<in> subs \<Longrightarrow> set_remove h subs = Inr (subs - {h})"
  by (simp add: set_remove_def)

lemma set_remove_absent: "h \<notin> subs \<Longrightarrow> set_remove h subs = Inl (KeyError h)"
  by (simp add: set_remove_def)

text \<open>
  Two facts hold after every sequence of events, whatever the connections and however
  their events interleave: the set holds WebSocket connections only, and it holds every
  connection whose coroutine waits. By the second, the one \<^verbatim>\<open>remove\<close> of the endpoint, at
  the disconnect of a waiting connection, finds its handle.
\<close>

lemma websocket_endpoint_receive_subset:
  "snd (websocket_endpoint_receive h r subs) \<subseteq> subs"
  by (cases r) (auto simp: set_remove_def)

lemma websocket_endpoint_only_websockets:
  "only_websockets (snd state) \<Longrightarrow> only_websockets (snd (websocket_endpoint e state))"
proof (cases state)
  case (Pair waiting subs)
  assume ws: "only_websockets (snd state)"
  show ?thesis
  proof (cases e)
    case (Connect n)
    with Pair ws show ?thesis
      by (auto simp: only_websockets_def websocket_endpoint_accept_def set_add_def)
  next
    case (Receive n r)
    have "only_websockets (snd (websocket_endpoint_receive (WebSocket n) r subs))"
      using websocket_endpoint_receive_subset [of "WebSocket n" r subs] ws Pair
      by (auto simp: only_websockets_def)
    with Receive Pair ws show ?thesis
      by (auto split: prod.splits outcome.splits)
  qed
qed

lemma websocket_events_only_websockets:
  "only_websockets (snd state) \<Longrightarrow> only_websockets (snd (websocket_events es state))"
  by (induction es arbitrary: state) (simp_all add: websocket_endpoint_only_websockets)

lemma websocket_endpoint_registered:
  "all_registered state \<Longrightarrow> all_registered (websocket_endpoint e state)"
proof (cases state)
  case (Pair waiting subs)
  assume reg: "all_registered state"
  show ?thesis
  proof (cases e)
    case (Connect n)
    with Pair reg show ?thesis
      by (auto simp: all_registered_def websocket_endpoint_accept_def set_add_def)
  next
    case (Receive n r)
    with Pair reg show ?thesis
      by (cases r) (auto simp: all_registered_def set_remove_def)
  qed
qed

lemma websocket_events_registered:
  "all_registered state \<Longrightarrow> all_registered (websocket_events es state)"
  by (induction es arbitrary: state) (simp_all add: websocket_endpoint_registered)

lemma disconnect_finds_handle:
  "all_registered (waiting, subs) \<Longrightarrow> n \<in> waiting \<Longrightarrow>
     websocket_endpoint_receive (WebSocket n) Disconnect subs = (Returned, subs - {WebSocket n})"
  by (auto simp: all_registered_def set_remove_def)

section \<open>The claims\<close>

subsection \<open>C1: ingest is all or nothing\<close>

text \<open>
  Claim C1. For every batch and every state of the application, whichever storage calls
  fail, a \<^verbatim>\<open>POST /processed_agent_data/\<close> ends in one of two ways: it answers
  \<^verbatim>\<open>data added successfully\<close> and the committed table is the old one followed by one row
  per element of the batch, in input order, each holding the values of its element as the
  columns keep them; or it
  raises \<^verbatim>\<open>HTTPException(500, "data create failed")\<close> and the committed table is the old
  one. In both cases nothing uncommitted is left in the session.
\<close>

theorem ingest_atomic:
  "(\<exists>app1 new.
      post_processed_agent_data data app = (Inr ''data added successfully'', app1) \<and>
      committed (database app1) = committed (database app) @ new \<and>
      pending (database app1) = committed (database app1) \<and>
      list_all2 (stored (timezone (database app))) data new)
   \<or> (\<exists>app1.
      post_processed_agent_data data app =
        (Inl (HTTPException 500 ''data create failed''), app1) \<and>
      committed (database app1) = committed (database app) \<and>
      pending (database app1) = committed (database app1))"
proof -
  let ?db = "(database app)\<lparr>pending := committed (database app)\<rparr>"
  obtain res db1 where run: "create_processed_agent_data data ?db = (res, db1)"
    by (cases "create_processed_agent_data data ?db")
  have post: "post_processed_agent_data data app =
      (res, app\<lparr>database := db1\<lparr>pending := committed db1\<rparr>\<rparr>)"
    using run by (simp add: post_processed_agent_data_def create_db_session_def)
  show ?thesis
  proof (cases res)
    case (Inr r)
    from create_try_ok [OF create_ok [OF run [unfolded Inr]]]
    obtain new where "r = ''data added successfully''"
      "committed db1 = committed (database app) @ new"
      "list_all2 (stored (timezone (database app))) data new"
      by auto
    with post Inr show ?thesis by auto
  next
    case (Inl e)
    from create_err [OF run [unfolded Inl]] obtain e1 where
      e: "e = HTTPException 500 ''data create failed''" and
      tr: "create_processed_agent_data_try data ?db = (Inl e1, db1)"
      by blast
    from create_try_err [OF tr] e post Inl show ?thesis
      by auto
  qed
qed

subsection \<open>C2: ingest notifies no subscriber\<close>

text \<open>
  Claim C2 asks for one dispatch per committed record. The endpoint never calls
  \<^verbatim>\<open>send_data_to_subscribers\<close>: with two subscribers connected, a batch of one record is
  committed and acknowledged, the subscribers are still registered, and no frame has been
  sent. The helper itself, had it been called with the new id, sends nothing either.
\<close>

theorem ingest_sends_nothing:
  "fst (post_processed_agent_data [example_record] subscribed_app) =
     Inr ''data added successfully'' \<and>
   subscriptions (snd (post_processed_agent_data [example_record] subscribed_app)) =
     {WebSocket 0, WebSocket 1} \<and>
   sent (snd (post_processed_agent_data [example_record] subscribed_app)) = [] \<and>
   send_data_to_subscribers 1 example_record {WebSocket 0, WebSocket 1} = Inr []"
  by (simp add: subscribed_app_def empty_app_def example_record_def run_defs
      send_data_to_subscribers_def)

subsection \<open>C3: reading an absent id answers 500\<close>

text \<open>
  Claim C3 asks for a 404 when the id is absent. On the fresh application, whose table is
  empty and whose database raises nothing, \<^verbatim>\<open>GET /processed_agent_data/999\<close> raises
  \<^verbatim>\<open>HTTPException(500, "Error: 404: data not exist")\<close>: the \<^verbatim>\<open>try\<close> block raises the 404,
  and the \<^verbatim>\<open>except Exception\<close> clause around it turns it into a 500.
\<close>

theorem read_absent_is_500:
  "fst (get_processed_agent_data 999 empty_app) =
     Inl (HTTPException 500 ''Error: 404: data not exist'') \<and>
   fst (read_processed_agent_data_try 999 (database empty_app)) =
     Inl (HTTPException 404 ''data not exist'')"
  by (simp add: empty_app_def run_defs str_int_def str_nat.simps)

subsection \<open>C4: create, then read\<close>

text \<open>
  Claim C4 says that the row read back is equal to the input in every field but the id.
  Counterexample: the scenario of the specification. The timestamp of the input,
  \<^verbatim>\<open>2024-01-01T00:00:00Z\<close>, is aware; the column is a timestamp without time zone, and the
  row read back holds the naive \<^verbatim>\<open>2024-01-01T00:00:00\<close>, which is not equal to it.
\<close>

theorem create_then_read_counterexample:
  "post_processed_agent_data [example_record] empty_app =
     (Inr ''data added successfully'', one_row_app) \<and>
   fst (get_processed_agent_data 1 one_row_app) =
     Inr \<lparr>row_id = 1, row_road_state = ''clear'', row_x = 1, row_y = 2, row_z = 3,
           row_latitude = 10, row_longitude = 20,
           row_timestamp = Naive 1704067200000000\<rparr> \<and>
   timestamp (agent_data example_record) = Aware 1704067200000000 0 \<and>
   \<not> matches example_record
        \<lparr>row_id = 1, row_road_state = ''clear'', row_x = 1, row_y = 2, row_z = 3,
         row_latitude = 10, row_longitude = 20,
         row_timestamp = Naive 1704067200000000\<rparr>"
proof (intro conjI)
  show "post_processed_agent_data [example_record] empty_app =
     (Inr ''data added successfully'', one_row_app)"
    by (simp add: post_example one_row_app_eq)
  show "fst (get_processed_agent_data 1 one_row_app) =
     Inr \<lparr>row_id = 1, row_road_state = ''clear'', row_x = 1, row_y = 2, row_z = 3,
           row_latitude = 10, row_longitude = 20,
           row_timestamp = Naive 1704067200000000\<rparr>"
    by (simp add: one_row_app_eq run_defs)
  show "timestamp (agent_data example_record) = Aware 1704067200000000 0"
    by (simp add: example_record_def)
  show "\<not> matches example_record
        \<lparr>row_id = 1, row_road_state = ''clear'', row_x = 1, row_y = 2, row_z = 3,
         row_latitude = 10, row_longitude = 20,
         row_timestamp = Naive 1704067200000000\<rparr>"
    by (simp add: matches_def example_record_def)
qed

text \<open>
  Claim C4, amended. When a \<^verbatim>\<open>POST\<close> of a batch succeeds, the \<open>k\<close>-th element of the batch
  has been given the id \<open>seq + k\<close>, where \<open>seq\<close> is the value of the sequence before the
  request; a \<^verbatim>\<open>GET\<close> of that id, on a database that answers, returns a row with that id,
  equal to the element in \<^verbatim>\<open>road_state\<close>, \<^verbatim>\<open>x\<close>, \<^verbatim>\<open>y\<close>, \<^verbatim>\<open>z\<close>, \<^verbatim>\<open>latitude\<close> and
  \<^verbatim>\<open>longitude\<close>, whose timestamp is the element's as the column keeps it. When the
  element's timestamp is naive, the row is equal to the element in every field but the id.
\<close>

theorem create_then_read:
  assumes ok: "post_processed_agent_data data app = (Inr res, app1)"
    and k: "k < length data"
    and nofault: "calls_succeed 1 (database app1)"
  shows "\<exists>row app2.
           get_processed_agent_data (seq (database app) + int k) app1 = (Inr row, app2) \<and>
           row_id row = seq (database app) + int k \<and>
           stored (timezone (database app)) (data ! k) row \<and>
           (\<forall>t. timestamp (agent_data (data ! k)) = Naive t \<longrightarrow> matches (data ! k) row)"
proof -
  let ?db = "(database app)\<lparr>pending := committed (database app)\<rparr>"
  let ?i = "seq (database app) + int k"
  from ok obtain db1 where
    run: "create_processed_agent_data data ?db = (Inr res, db1)" and
    app1: "app1 = app\<lparr>database := db1\<lparr>pending := committed db1\<rparr>\<rparr>"
    by (auto simp: post_processed_agent_data_def create_db_session_def split: prod.splits)
  from create_ok [OF run] have tr: "create_processed_agent_data_try data ?db = (Inr res, db1)" .
  from create_try_ok [OF tr] obtain new where
    com: "committed db1 = committed (database app) @ new" and
    mt: "list_all2 (stored (timezone (database app))) data new" and
    ids: "map row_id new = map (\<lambda>k. seq (database app) + int k) [0..<length data]"
    by auto
  from tr obtain u db2 where ins: "insert_elements data ?db = (Inr u, db2)"
    by (auto simp: create_processed_agent_data_try_def split: prod.splits sum.splits)
  from insert_elements_fresh [OF ins k]
  have "find (\<lambda>r. row_id r = ?i) (committed (database app)) = None"
    unfolding find_None_iff by force
  then have "find (\<lambda>r. row_id r = ?i) (committed db1) = find (\<lambda>r. row_id r = ?i) new"
    using com by (simp add: find_append_None)
  with find_new_row [OF ids k]
  have found: "find (\<lambda>r. row_id r = ?i) (committed db1) = Some (new ! k)" by simp
  have "calls_succeed (Suc 0) (db1\<lparr>pending := committed db1\<rparr>)"
    using nofault app1 by simp
  from read_found [OF this, of ?i "new ! k"] found
  have "get_processed_agent_data ?i app1 =
      (Inr (new ! k), app1\<lparr>database := (database app1)\<lparr>faults := tl (faults (database app1))\<rparr>\<rparr>)"
    by (simp add: app_get app1)
  moreover have "row_id (new ! k) = ?i"
    using found by (auto simp: find_Some_iff)
  moreover have st: "stored (timezone (database app)) (data ! k) (new ! k)"
    using mt k by (simp add: list_all2_nthD)
  moreover have "\<forall>t. timestamp (agent_data (data ! k)) = Naive t \<longrightarrow> matches (data ! k) (new ! k)"
    using st by (auto dest: stored_naive)
  ultimately show ?thesis by blast
qed

text \<open>
  Witness of the amended C4: the record with the naive timestamp, created on the fresh
  application, is read back equal in every field but the id.
\<close>

theorem create_then_read_witness:
  "fst (post_processed_agent_data [naive_record] empty_app) = Inr ''data added successfully'' \<and>
   0 < length [naive_record] \<and>
   calls_succeed 1 (database (snd (post_processed_agent_data [naive_record] empty_app))) \<and>
   timestamp (agent_data ([naive_record] ! 0)) = Naive 1704067320000000 \<and>
   (\<exists>row app2.
      get_processed_agent_data (seq (database empty_app) + int 0)
        (snd (post_processed_agent_data [naive_record] empty_app)) = (Inr row, app2) \<and>
      row_id row = seq (database empty_app) + int 0 \<and>
      stored (timezone (database empty_app)) ([naive_record] ! 0) row \<and>
      matches ([naive_record] ! 0) row)"
proof -
  let ?app1 = "snd (post_processed_agent_data [naive_record] empty_app)"
  have res: "fst (post_processed_agent_data [naive_record] empty_app) =
      Inr ''data added successfully''"
    by (simp add: run_defs naive_record_def empty_app_def)
  then have a: "post_processed_agent_data [naive_record] empty_app =
      (Inr ''data added successfully'', ?app1)"
    by (metis prod.collapse)
  have b: "0 < length [naive_record]" by simp
  have c: "calls_succeed 1 (database ?app1)"
    by (simp add: run_defs naive_record_def empty_app_def calls_succeed_def)
  have d: "timestamp (agent_data ([naive_record] ! 0)) = Naive 1704067320000000"
    by (simp add: naive_record_def)
  from create_then_read [OF a b c] d res b c show ?thesis by blast
qed

subsection \<open>C5: update, then read\<close>

text \<open>
  Claim C5 says that the row read after an update is equal to the input in every field
  but the id. Counterexample: the second record, whose timestamp is
  \<^verbatim>\<open>2024-01-01T00:01:00+02:00\<close>, written over the row 1 in a session whose time zone is UTC:
  the update returns, and the read returns, a row whose timestamp is the naive
  \<^verbatim>\<open>2023-12-31T22:01:00\<close>.
\<close>

theorem update_then_read_counterexample:
  "fst (put_processed_agent_data 1 example_record2 one_row_app) =
     Inr \<lparr>row_id = 1, row_road_state = ''bumpy'', row_x = 4, row_y = 5, row_z = 6,
           row_latitude = 11, row_longitude = 21,
           row_timestamp = Naive 1704060060000000\<rparr> \<and>
   fst (get_processed_agent_data 1 (snd (put_processed_agent_data 1 example_record2 one_row_app))) =
     Inr \<lparr>row_id = 1, row_road_state = ''bumpy'', row_x = 4, row_y = 5, row_z = 6,
           row_latitude = 11, row_longitude = 21,
           row_timestamp = Naive 1704060060000000\<rparr> \<and>
   timestamp (agent_data example_record2) = Aware 1704067260000000 7200000000 \<and>
   \<not> matches example_record2
        \<lparr>row_id = 1, row_road_state = ''bumpy'', row_x = 4, row_y = 5, row_z = 6,
         row_latitude = 11, row_longitude = 21,
         row_timestamp = Naive 1704060060000000\<rparr>"
proof (intro conjI)
  show "fst (put_processed_agent_data 1 example_record2 one_row_app) =
     Inr \<lparr>row_id = 1, row_road_state = ''bumpy'', row_x = 4, row_y = 5, row_z = 6,
           row_latitude = 11, row_longitude = 21,
           row_timestamp = Naive 1704060060000000\<rparr>"
    by (simp add: put_example)
  show "fst (get_processed_agent_data 1
          (snd (put_processed_agent_data 1 example_record2 one_row_app))) =
     Inr \<lparr>row_id = 1, row_road_state = ''bumpy'', row_x = 4, row_y = 5, row_z = 6,
           row_latitude = 11, row_longitude = 21,
           row_timestamp = Naive 1704060060000000\<rparr>"
    unfolding put_example by (simp add: run_defs)
  show "timestamp (agent_data example_record2) = Aware 1704067260000000 7200000000"
    by (simp add: example_record2_def)
  show "\<not> matches example_record2
        \<lparr>row_id = 1, row_road_state = ''bumpy'', row_x = 4, row_y = 5, row_z = 6,
         row_latitude = 11, row_longitude = 21,
         row_timestamp = Naive 1704060060000000\<rparr>"
    by (simp add: matches_def example_record2_def)
qed

text \<open>
  Claim C5, amended. For an id that is in the table and a database that answers the four
  calls, a \<^verbatim>\<open>PUT\<close> of \<open>r2\<close> succeeds. The row it returns is the row that the table now holds
  for that id, and the row that a following \<^verbatim>\<open>GET\<close> returns. That row has the id; it is
  equal to \<open>r2\<close> in \<^verbatim>\<open>road_state\<close>, \<^verbatim>\<open>x\<close>, \<^verbatim>\<open>y\<close>, \<^verbatim>\<open>z\<close>, \<^verbatim>\<open>latitude\<close> and \<^verbatim>\<open>longitude\<close>, and
  its timestamp is that of \<open>r2\<close> as the column keeps it. When the timestamp of \<open>r2\<close> is
  naive the row is equal to \<open>r2\<close> in every field but the id; when it is aware, the row
  returned is not the input given back with the id.
\<close>

theorem update_then_read:
  assumes present: "i \<in> set (map row_id (committed (database app)))"
    and calls: "calls_succeed 4 (database app)"
  shows "\<exists>row app1 app2.
           put_processed_agent_data i r2 app = (Inr row, app1) \<and>
           find (\<lambda>r. row_id r = i) (committed (database app1)) = Some row \<and>
           get_processed_agent_data i app1 = (Inr row, app2) \<and>
           row_id row = i \<and> stored (timezone (database app)) r2 row \<and>
           (\<forall>t. timestamp (agent_data r2) = Naive t \<longrightarrow> matches r2 row) \<and>
           (\<forall>t offset. timestamp (agent_data r2) = Aware t offset \<longrightarrow>
              row \<noteq> with_id i (column_values r2))"
proof -
  let ?db = "(database app)\<lparr>pending := committed (database app)\<rparr>"
  let ?tz = "timezone (database app)"
  let ?row = "with_id i (kept ?tz (column_values r2))"
  let ?rows = "updated_rows ?tz i r2 (committed (database app))"
  from present obtain existing where
    found: "find (\<lambda>row. row_id row = i) (pending ?db) = Some existing"
    by (cases "find (\<lambda>row. row_id row = i) (committed (database app))")
       (auto simp: find_None_iff)
  have c3: "calls_succeed 3 ?db"
    using calls_succeed_mono [OF calls, of 3] by simp
  let ?db1 = "?db\<lparr>faults := tl (tl (tl (faults ?db))), pending := ?rows, committed := ?rows\<rparr>"
  let ?app1 = "app\<lparr>database := ?db1\<rparr>"
  have put: "put_processed_agent_data i r2 app = (Inr ?row, ?app1)"
    using update_found [OF c3 found, of r2] by (simp add: app_put)
  have held: "find (\<lambda>r. row_id r = i) ?rows = Some ?row"
    using found by (simp add: find_updated_rows)
  have c1: "calls_succeed (Suc 0) ?db1"
    using calls_succeed_drop [of 3 1 "database app"] calls by (simp add: tl3)
  have get: "get_processed_agent_data i ?app1 =
      (Inr ?row, ?app1\<lparr>database := ?db1\<lparr>faults := tl (faults ?db1)\<rparr>\<rparr>)"
    using read_found [OF c1, of i ?row] held
    by (cases "database app") (simp add: app_get)
  have st: "stored ?tz r2 ?row" by (rule stored_with_id)
  have naive: "\<forall>t. timestamp (agent_data r2) = Naive t \<longrightarrow> matches r2 ?row"
    using st by (auto dest: stored_naive)
  have aware: "\<forall>t offset. timestamp (agent_data r2) = Aware t offset \<longrightarrow>
      ?row \<noteq> with_id i (column_values r2)"
  proof (intro allI impI)
    fix t offset
    assume a: "timestamp (agent_data r2) = Aware t offset"
    from stored_aware [OF st a] have "row_timestamp ?row = Naive (t - offset + ?tz)" by simp
    moreover have "row_timestamp (with_id i (column_values r2)) = Aware t offset"
      using a by (simp add: with_id_def column_values_def)
    ultimately show "?row \<noteq> with_id i (column_values r2)" by auto
  qed
  from put held get st naive aware show ?thesis
    by (intro exI [of _ ?row] exI [of _ ?app1] exI conjI) simp_all
qed

text \<open>
  Witness of the amended C5: the record with the naive timestamp and the record with the
  aware one, each written over the row 1.
\<close>

theorem update_then_read_witness:
  "1 \<in> set (map row_id (committed (database one_row_app))) \<and>
   calls_succeed 4 (database one_row_app) \<and>
   timestamp (agent_data naive_record) = Naive 1704067320000000 \<and>
   (\<exists>row app1 app2.
      put_processed_agent_data 1 naive_record one_row_app = (Inr row, app1) \<and>
      find (\<lambda>r. row_id r = 1) (committed (database app1)) = Some row \<and>
      get_processed_agent_data 1 app1 = (Inr row, app2) \<and>
      row_id row = 1 \<and> matches naive_record row) \<and>
   timestamp (agent_data example_record2) = Aware 1704067260000000 7200000000 \<and>
   (\<exists>row app1 app2.
      put_processed_agent_data 1 example_record2 one_row_app = (Inr row, app1) \<and>
      find (\<lambda>r. row_id r = 1) (committed (database app1)) = Some row \<and>
      get_processed_agent_data 1 app1 = (Inr row, app2) \<and>
      row_id row = 1 \<and> stored (timezone (database one_row_app)) example_record2 row \<and>
      row \<noteq> with_id 1 (column_values example_record2))"
proof -
  have a: "1 \<in> set (map row_id (committed (database one_row_app)))"
    by (simp add: one_row_app_eq)
  have b: "calls_succeed 4 (database one_row_app)"
    by (simp add: one_row_app_eq calls_succeed_def)
  have n: "timestamp (agent_data naive_record) = Naive 1704067320000000"
    by (simp add: naive_record_def)
  have w: "timestamp (agent_data example_record2) = Aware 1704067260000000 7200000000"
    by (simp add: example_record2_def)
  from update_then_read [OF a b, of naive_record] n
  have first: "\<exists>row app1 app2.
      put_processed_agent_data 1 naive_record one_row_app = (Inr row, app1) \<and>
      find (\<lambda>r. row_id r = 1) (committed (database app1)) = Some row \<and>
      get_processed_agent_data 1 app1 = (Inr row, app2) \<and>
      row_id row = 1 \<and> matches naive_record row"
    by blast
  from update_then_read [OF a b, of example_record2] w
  have second: "\<exists>row app1 app2.
      put_processed_agent_data 1 example_record2 one_row_app = (Inr row, app1) \<and>
      find (\<lambda>r. row_id r = 1) (committed (database app1)) = Some row \<and>
      get_processed_agent_data 1 app1 = (Inr row, app2) \<and>
      row_id row = 1 \<and> stored (timezone (database one_row_app)) example_record2 row \<and>
      row \<noteq> with_id 1 (column_values example_record2)"
    by blast
  from a b n w first second show ?thesis by blast
qed

subsection \<open>C6: what a storage error tells the caller\<close>

text \<open>
  Claim C6 says that the detail of the error response does not depend on the internal
  error. Counterexample: the same \<^verbatim>\<open>DELETE\<close> on the same table, with two different errors
  of the database, gives two different details, each holding the text of the error.
\<close>

theorem storage_error_leaks_counterexample:
  "fst (delete_processed_agent_data_request 1 (failing_app ''connection refused'')) =
     Inl (HTTPException 500 ''Error: connection refused'') \<and>
   fst (delete_processed_agent_data_request 1 (failing_app ''deadlock detected'')) =
     Inl (HTTPException 500 ''Error: deadlock detected'') \<and>
   fst (delete_processed_agent_data_request 1 (failing_app ''connection refused'')) \<noteq>
   fst (delete_processed_agent_data_request 1 (failing_app ''deadlock detected''))"
  by (simp add: failing_app_eq run_defs)

text \<open>
  Claim C6, amended. Let the first storage call that fails be call number \<open>k\<close> (from 0),
  with the message \<open>msg\<close>. A \<^verbatim>\<open>GET\<close> whose select fails, a \<^verbatim>\<open>DELETE\<close> whose delete or commit
  fails, and a \<^verbatim>\<open>PUT\<close> whose select fails, or whose update or commit fails for an id in
  the table, raise \<^verbatim>\<open>HTTPException(500, "Error: " + msg)\<close>. A \<^verbatim>\<open>POST\<close> in which an insert or
  the commit fails raises \<^verbatim>\<open>HTTPException(500, "data create failed")\<close>, whatever the message.
\<close>

theorem storage_error_detail:
  assumes f: "faults (database app) = replicate k None @ Some msg # fs"
  shows "(k = 0 \<longrightarrow>
            fst (get_processed_agent_data i app) =
              Inl (HTTPException 500 (''Error: '' @ msg))) \<and>
         (k < 2 \<longrightarrow>
            fst (delete_processed_agent_data_request i app) =
              Inl (HTTPException 500 (''Error: '' @ msg))) \<and>
         (k = 0 \<or> k < 3 \<and> i \<in> set (map row_id (committed (database app))) \<longrightarrow>
            fst (put_processed_agent_data i r app) =
              Inl (HTTPException 500 (''Error: '' @ msg))) \<and>
         (k \<le> length data \<longrightarrow>
            fst (post_processed_agent_data data app) =
              Inl (HTTPException 500 ''data create failed''))"
proof (intro conjI impI)
  let ?db = "(database app)\<lparr>pending := committed (database app)\<rparr>"
  have fdb: "faults ?db = replicate k None @ Some msg # fs" using f by simp
  {
    assume "k = 0"
    with fdb have "faults ?db = Some msg # fs" by simp
    from read_fails [OF this]
    show "fst (get_processed_agent_data i app) = Inl (HTTPException 500 (''Error: '' @ msg))"
      by (simp add: app_get fst_case_prod)
  }
  {
    assume "k < 2"
    then have "k = 0 \<or> k = 1" by auto
    with fdb have "faults ?db = Some msg # fs \<or> faults ?db = None # Some msg # fs" by auto
    from delete_fails [OF this]
    show "fst (delete_processed_agent_data_request i app) =
        Inl (HTTPException 500 (''Error: '' @ msg))"
      by (simp add: app_delete fst_case_prod)
  }
  {
    assume a: "k = 0 \<or> k < 3 \<and> i \<in> set (map row_id (committed (database app)))"
    have "fst (update_processed_agent_data i r ?db) = Inl (HTTPException 500 (''Error: '' @ msg))"
    proof (cases "k = 0")
      case True
      with fdb have "faults ?db = Some msg # fs" by simp
      then show ?thesis by (rule update_fails_select)
    next
      case False
      with a have k: "k = 1 \<or> k = 2" and "i \<in> set (map row_id (committed (database app)))"
        by auto
      then obtain existing where
        found: "find (\<lambda>row. row_id row = i) (pending ?db) = Some existing"
        by (cases "find (\<lambda>row. row_id row = i) (committed (database app))")
           (auto simp: find_None_iff)
      from k fdb have
        "faults ?db = None # Some msg # fs \<or> faults ?db = None # None # Some msg # fs"
        by (auto simp: numeral_2_eq_2)
      from update_fails_later [OF this found] show ?thesis .
    qed
    then show "fst (put_processed_agent_data i r app) =
        Inl (HTTPException 500 (''Error: '' @ msg))"
      by (simp add: app_put fst_case_prod)
  }
  {
    assume "k \<le> length data"
    from create_fails [OF fdb this]
    show "fst (post_processed_agent_data data app) =
        Inl (HTTPException 500 ''data create failed'')"
      by (simp add: app_post fst_case_prod)
  }
qed

text \<open>Witness of the amended C6: the four requests on a database whose first call fails.\<close>

theorem storage_error_detail_witness:
  "faults (database (failing_app ''deadlock detected'')) =
     replicate 0 None @ Some ''deadlock detected'' # [] \<and>
   fst (get_processed_agent_data 1 (failing_app ''deadlock detected'')) =
     Inl (HTTPException 500 ''Error: deadlock detected'') \<and>
   fst (delete_processed_agent_data_request 1 (failing_app ''deadlock detected'')) =
     Inl (HTTPException 500 ''Error: deadlock detected'') \<and>
   fst (put_processed_agent_data 1 example_record2 (failing_app ''deadlock detected'')) =
     Inl (HTTPException 500 ''Error: deadlock detected'') \<and>
   fst (post_processed_agent_data [example_record2] (failing_app ''deadlock detected'')) =
     Inl (HTTPException 500 ''data create failed'')"
proof -
  have f: "faults (database (failing_app ''deadlock detected'')) =
     replicate 0 None @ Some ''deadlock detected'' # []"
    by (simp add: failing_app_eq)
  from storage_error_detail [OF f, of 1 example_record2 "[example_record2]"] f
  show ?thesis by simp
qed

subsection \<open>C7: removing a subscriber\<close>

text \<open>
  Claim C7 says that removing an absent handle is a no-op that raises nothing.
  Counterexample: \<^verbatim>\<open>subscriptions.remove\<close> of a handle that is not in the set raises
  \<^verbatim>\<open>KeyError\<close>, and so does the \<^verbatim>\<open>except WebSocketDisconnect\<close> branch of the endpoint, which
  is that call.
\<close>

theorem remove_absent_raises_counterexample:
  "set_remove (WebSocket 0) {WebSocket 1} = Inl (KeyError (WebSocket 0)) \<and>
   websocket_endpoint_receive (WebSocket 0) Disconnect {WebSocket 1} =
     (Raised (KeyError (WebSocket 0)), {WebSocket 1})"
  by (simp add: set_remove_def)

text \<open>
  Claim C7, amended. For every handle and every state of the set, the remove operation
  raises \<^verbatim>\<open>KeyError\<close> and leaves the set as it is when the handle is absent, so that it is
  not safe to call a second time; when the handle is in the set, it gives the set without
  the handle.
\<close>

theorem remove_present_only:
  "(h \<in> subs \<longrightarrow>
      set_remove h subs = Inr (subs - {h}) \<and>
      websocket_endpoint_receive h Disconnect subs = (Returned, subs - {h})) \<and>
   (h \<notin> subs \<longrightarrow>
      set_remove h subs = Inl (KeyError h) \<and>
      websocket_endpoint_receive h Disconnect subs = (Raised (KeyError h), subs))"
proof (intro conjI impI)
  assume "h \<in> subs"
  then show "set_remove h subs = Inr (subs - {h})" by (rule set_remove_present)
  then show "websocket_endpoint_receive h Disconnect subs = (Returned, subs - {h})" by simp
next
  assume "h \<notin> subs"
  then show "set_remove h subs = Inl (KeyError h)" by (rule set_remove_absent)
  then show "websocket_endpoint_receive h Disconnect subs = (Raised (KeyError h), subs)" by simp
qed

text \<open>Witness of the amended C7: a handle that is in the set, and one that is not.\<close>

theorem remove_present_only_witness:
  "WebSocket 0 \<in> {WebSocket 0, WebSocket 1} \<and>
   set_remove (WebSocket 0) {WebSocket 0, WebSocket 1} =
     Inr ({WebSocket 0, WebSocket 1} - {WebSocket 0}) \<and>
   websocket_endpoint_receive (WebSocket 0) Disconnect {WebSocket 0, WebSocket 1} =
     (Returned, {WebSocket 0, WebSocket 1} - {WebSocket 0}) \<and>
   WebSocket 2 \<notin> {WebSocket 0, WebSocket 1} \<and>
   set_remove (WebSocket 2) {WebSocket 0, WebSocket 1} = Inl (KeyError (WebSocket 2)) \<and>
   websocket_endpoint_receive (WebSocket 2) Disconnect {WebSocket 0, WebSocket 1} =
     (Raised (KeyError (WebSocket 2)), {WebSocket 0, WebSocket 1})"
proof -
  have a: "WebSocket 0 \<in> {WebSocket 0, WebSocket 1}" by simp
  have b: "WebSocket 2 \<notin> {WebSocket 0, WebSocket 1}" by simp
  from remove_present_only [of "WebSocket 0" "{WebSocket 0, WebSocket 1}"] a
    remove_present_only [of "WebSocket 2" "{WebSocket 0, WebSocket 1}"] b
  show ?thesis by blast
qed

subsection \<open>C8: delete is idempotent\<close>

text \<open>
  Claim C8. On a database that answers, a \<^verbatim>\<open>DELETE\<close> of any id, in the table or not,
  answers \<^verbatim>\<open>data deleted successfully\<close> and leaves the table without that id; a second
  \<^verbatim>\<open>DELETE\<close> of the same id gives the same answer and leaves the table as it is.
\<close>

theorem delete_idempotent:
  assumes calls: "calls_succeed 4 (database app)"
  shows "\<exists>app1 app2.
           delete_processed_agent_data_request i app = (Inr ''data deleted successfully'', app1) \<and>
           committed (database app1) = filter (\<lambda>r. row_id r \<noteq> i) (committed (database app)) \<and>
           delete_processed_agent_data_request i app1 = (Inr ''data deleted successfully'', app2) \<and>
           committed (database app2) = committed (database app1)"
proof -
  let ?rows = "filter (\<lambda>r. row_id r \<noteq> i) (committed (database app))"
  let ?db = "(database app)\<lparr>pending := committed (database app)\<rparr>"
  let ?db1 = "(database app)\<lparr>faults := drop 2 (faults (database app)),
                               pending := ?rows, committed := ?rows\<rparr>"
  let ?app1 = "app\<lparr>database := ?db1\<rparr>"
  let ?db2 = "?db1\<lparr>faults := drop 2 (faults ?db1)\<rparr>"
  have c2: "calls_succeed 2 ?db"
    using calls_succeed_mono [OF calls, of 2] by simp
  have first: "delete_processed_agent_data_request i app =
      (Inr ''data deleted successfully'', ?app1)"
    using delete_run [OF c2, of i] by (cases "database app") (simp add: app_delete)
  have c2': "calls_succeed 2 (?db1\<lparr>pending := committed ?db1\<rparr>)"
    using calls_succeed_drop [of 2 2 "database app"] calls by simp
  have second: "delete_processed_agent_data_request i ?app1 =
      (Inr ''data deleted successfully'', ?app1\<lparr>database := ?db2\<rparr>)"
    using delete_run [OF c2', of i] by (cases "database app") (simp add: app_delete)
  from first second show ?thesis
    by (intro exI [of _ ?app1] exI [of _ "?app1\<lparr>database := ?db2\<rparr>"] conjI) simp_all
qed

text \<open>Witness of C8: the only row of a table deleted twice.\<close>

theorem delete_idempotent_witness:
  "calls_succeed 4 (database one_row_app) \<and>
   (\<exists>app1 app2.
      delete_processed_agent_data_request 1 one_row_app =
        (Inr ''data deleted successfully'', app1) \<and>
      committed (database app1) =
        filter (\<lambda>r. row_id r \<noteq> 1) (committed (database one_row_app)) \<and>
      delete_processed_agent_data_request 1 app1 = (Inr ''data deleted successfully'', app2) \<and>
      committed (database app2) = committed (database app1)) \<and>
   committed (database one_row_app) \<noteq> [] \<and>
   filter (\<lambda>r. row_id r \<noteq> 1) (committed (database one_row_app)) = []"
proof -
  have c: "calls_succeed 4 (database one_row_app)"
    by (simp add: one_row_app_eq calls_succeed_def)
  from delete_idempotent [OF c, of 1] c show ?thesis
    by (simp add: one_row_app_eq)
qed

subsection \<open>C9: an update keeps the id\<close>

text \<open>
  Claim C9. When a \<^verbatim>\<open>PUT\<close> for the id \<open>i\<close> succeeds, the row it returns has the id \<open>i\<close>
  and the values of the input as the columns keep them; the table holds the same ids as
  before, each as often as before; and the rows with another id are unchanged.
\<close>

theorem update_keeps_id:
  assumes "put_processed_agent_data i r2 app = (Inr row, app1)"
  shows "row_id row = i \<and> stored (timezone (database app)) r2 row \<and>
         mset (map row_id (committed (database app1))) =
           mset (map row_id (committed (database app))) \<and>
         filter (\<lambda>r. row_id r \<noteq> i) (committed (database app1)) =
           filter (\<lambda>r. row_id r \<noteq> i) (committed (database app))"
proof -
  let ?db = "(database app)\<lparr>pending := committed (database app)\<rparr>"
  let ?tz = "timezone (database app)"
  from assms obtain db1 where
    run: "update_processed_agent_data i r2 ?db = (Inr row, db1)" and
    app1: "app1 = app\<lparr>database := db1\<lparr>pending := committed db1\<rparr>\<rparr>"
    by (auto simp: app_put split: prod.splits)
  from update_try_success [OF update_success [OF run]] have
    com: "committed db1 = updated_rows ?tz i r2 (committed (database app))" and
    found: "find (\<lambda>row. row_id row = i) (updated_rows ?tz i r2 (committed (database app))) =
      Some row"
    by simp_all
  from found have row: "row = with_id i (kept ?tz (column_values r2))"
    by (auto simp: find_updated_rows split: option.splits)
  then have "row_id row = i" and "stored ?tz r2 row"
    by (simp_all add: stored_with_id)
  moreover have "mset (map row_id (committed (database app1))) =
      mset (map row_id (committed (database app)))"
    using com app1 updated_rows_ids [of ?tz i r2 "committed (database app)"] by simp
  moreover have "filter (\<lambda>r. row_id r \<noteq> i) (committed (database app1)) =
      filter (\<lambda>r. row_id r \<noteq> i) (committed (database app))"
    using com app1 by (simp add: updated_rows_others)
  ultimately show ?thesis by blast
qed

text \<open>Witness of C9: the second record written over the row 1 of a table of two rows.\<close>

theorem update_keeps_id_witness:
  "put_processed_agent_data 1 example_record2 two_row_app =
     (Inr \<lparr>row_id = 1, row_road_state = ''bumpy'', row_x = 4, row_y = 5, row_z = 6,
           row_latitude = 11, row_longitude = 21, row_timestamp = Naive 1704060060000000\<rparr>,
      snd (put_processed_agent_data 1 example_record2 two_row_app)) \<and>
   stored (timezone (database two_row_app)) example_record2
     \<lparr>row_id = 1, row_road_state = ''bumpy'', row_x = 4, row_y = 5, row_z = 6,
      row_latitude = 11, row_longitude = 21, row_timestamp = Naive 1704060060000000\<rparr> \<and>
   mset (map row_id (committed (database (snd (put_processed_agent_data 1 example_record2 two_row_app))))) =
     mset (map row_id (committed (database two_row_app))) \<and>
   filter (\<lambda>r. row_id r \<noteq> 1)
      (committed (database (snd (put_processed_agent_data 1 example_record2 two_row_app)))) =
     filter (\<lambda>r. row_id r \<noteq> 1) (committed (database two_row_app))"
proof -
  have a: "put_processed_agent_data 1 example_record2 two_row_app =
     (Inr \<lparr>row_id = 1, row_road_state = ''bumpy'', row_x = 4, row_y = 5, row_z = 6,
           row_latitude = 11, row_longitude = 21, row_timestamp = Naive 1704060060000000\<rparr>,
      snd (put_processed_agent_data 1 example_record2 two_row_app))"
    by (simp add: put_two_rows_example)
  from update_keeps_id [OF a] a show ?thesis by blast
qed

subsection \<open>C10: the broadcast helper sends nothing\<close>

text \<open>
  Claim C10. When the set \<^verbatim>\<open>subscriptions\<close> holds WebSocket connections only, which
  every event of the WebSocket endpoint preserves, \<^verbatim>\<open>send_data_to_subscribers\<close> returns for every \<^verbatim>\<open>user_id\<close>
  and every data without an exception and without having sent a frame.
\<close>

theorem send_data_to_subscribers_sends_nothing:
  "only_websockets subs \<Longrightarrow> send_data_to_subscribers user_id data subs = Inr []"
  by (auto simp: send_data_to_subscribers_def only_websockets_def)

text \<open>Witness of C10.\<close>

theorem send_data_to_subscribers_sends_nothing_witness:
  "only_websockets {WebSocket 0, WebSocket 1} \<and>
   send_data_to_subscribers 0 example_record {WebSocket 0, WebSocket 1} = Inr []"
proof -
  have a: "only_websockets {WebSocket 0, WebSocket 1}"
    by (simp add: only_websockets_def)
  from send_data_to_subscribers_sends_nothing [OF a] a show ?thesis by simp
qed

end
